theory Spec2Isabelle
  imports Complex_Main
begin

section \<open>Python data\<close>

text \<open>
  A Python \<open>str\<close> is a sequence of Unicode code points. The field names of the rulebook are
  Chinese, so the 8-bit characters of HOL's \<open>string\<close> are not enough: a string is a list of
  code points (integers), and \<open>u\<close> embeds an ASCII literal.
\<close>

type_synonym pystr = "int list"

definition u :: "string \<Rightarrow> pystr" where
  "u s = map of_char s"

text \<open>
  Python floats. A finite float is represented by the real number it denotes; the special
  values are constructors of their own. Comparison is exact on this representation (as it is
  in Python, also between \<open>int\<close> and \<open>float\<close>). The result of an arithmetic operation
  on finite floats is the exact result rounded to a float; the rounding \<open>rnd\<close> (which gives
  an infinity when the result is out of range) is a function of the library below.
\<close>

datatype pyfloat = Fin real | PInf | NInf | NaN

datatype pyval =
    VNone
  | VBool bool
  | VInt int
  | VFloat pyfloat
  | VStr pystr
  | VList "pyval list"
  | VTuple "pyval list"

subsection \<open>Truth value, numbers and equality of Python values\<close>

fun py_truthy :: "pyval \<Rightarrow> bool" where
  "py_truthy VNone = False"
| "py_truthy (VBool b) = b"
| "py_truthy (VInt i) = (i \<noteq> 0)"
| "py_truthy (VFloat f) = (f \<noteq> Fin 0)"
| "py_truthy (VStr s) = (s \<noteq> [])"
| "py_truthy (VList xs) = (xs \<noteq> [])"
| "py_truthy (VTuple xs) = (xs \<noteq> [])"

text \<open>\<open>bool\<close> is a subclass of \<open>int\<close>: \<open>True\<close> counts as 1 in arithmetic and comparison.\<close>

fun int_of :: "pyval \<Rightarrow> int option" where
  "int_of (VBool b) = Some (if b then 1 else 0)"
| "int_of (VInt i) = Some i"
| "int_of _ = None"

fun num_of :: "pyval \<Rightarrow> pyfloat option" where
  "num_of (VBool b) = Some (Fin (if b then 1 else 0))"
| "num_of (VInt i) = Some (Fin (of_int i))"
| "num_of (VFloat f) = Some f"
| "num_of _ = None"

fun f_lt :: "pyfloat \<Rightarrow> pyfloat \<Rightarrow> bool" where
  "f_lt NaN _ = False"
| "f_lt _ NaN = False"
| "f_lt (Fin x) (Fin y) = (x < y)"
| "f_lt (Fin x) PInf = True"
| "f_lt NInf (Fin y) = True"
| "f_lt NInf PInf = True"
| "f_lt _ _ = False"

definition f_eq :: "pyfloat \<Rightarrow> pyfloat \<Rightarrow> bool" where
  "f_eq x y = (x \<noteq> NaN \<and> x = y)"

fun f_neg :: "pyfloat \<Rightarrow> pyfloat" where
  "f_neg (Fin x) = Fin (- x)"
| "f_neg PInf = NInf"
| "f_neg NInf = PInf"
| "f_neg NaN = NaN"

fun f_add :: "(real \<Rightarrow> pyfloat) \<Rightarrow> pyfloat \<Rightarrow> pyfloat \<Rightarrow> pyfloat" where
  "f_add rnd NaN _ = NaN"
| "f_add rnd _ NaN = NaN"
| "f_add rnd (Fin x) (Fin y) = rnd (x + y)"
| "f_add rnd PInf NInf = NaN"
| "f_add rnd NInf PInf = NaN"
| "f_add rnd PInf _ = PInf"
| "f_add rnd _ PInf = PInf"
| "f_add rnd NInf _ = NInf"
| "f_add rnd _ NInf = NInf"

definition f_sign_inf :: "bool \<Rightarrow> pyfloat" where
  "f_sign_inf positive = (if positive then PInf else NInf)"

fun f_mul :: "(real \<Rightarrow> pyfloat) \<Rightarrow> pyfloat \<Rightarrow> pyfloat \<Rightarrow> pyfloat" where
  "f_mul rnd NaN _ = NaN"
| "f_mul rnd _ NaN = NaN"
| "f_mul rnd (Fin x) (Fin y) = rnd (x * y)"
| "f_mul rnd (Fin x) PInf = (if x = 0 then NaN else f_sign_inf (0 < x))"
| "f_mul rnd (Fin x) NInf = (if x = 0 then NaN else f_sign_inf (x < 0))"
| "f_mul rnd PInf (Fin y) = (if y = 0 then NaN else f_sign_inf (0 < y))"
| "f_mul rnd NInf (Fin y) = (if y = 0 then NaN else f_sign_inf (y < 0))"
| "f_mul rnd PInf PInf = PInf"
| "f_mul rnd NInf NInf = PInf"
| "f_mul rnd PInf NInf = NInf"
| "f_mul rnd NInf PInf = NInf"

text \<open>Float division by a divisor that is not zero (the evaluator never divides by zero).\<close>

fun f_div :: "(real \<Rightarrow> pyfloat) \<Rightarrow> pyfloat \<Rightarrow> pyfloat \<Rightarrow> pyfloat" where
  "f_div rnd NaN _ = NaN"
| "f_div rnd _ NaN = NaN"
| "f_div rnd (Fin x) (Fin y) = rnd (x / y)"
| "f_div rnd (Fin x) _ = Fin 0"
| "f_div rnd PInf (Fin y) = f_sign_inf (0 < y)"
| "f_div rnd NInf (Fin y) = f_sign_inf (y < 0)"
| "f_div rnd _ _ = NaN"

text \<open>Python's \<open>==\<close> on these values: numbers compare by value across \<open>bool\<close>, \<open>int\<close> and
  \<open>float\<close>, a NaN equals nothing, sequences compare element by element.\<close>

fun py_eq :: "pyval \<Rightarrow> pyval \<Rightarrow> bool"
  and py_eq_list :: "pyval list \<Rightarrow> pyval list \<Rightarrow> bool" where
  "py_eq (VList xs) (VList ys) = py_eq_list xs ys"
| "py_eq (VTuple xs) (VTuple ys) = py_eq_list xs ys"
| "py_eq (VStr s) (VStr t) = (s = t)"
| "py_eq VNone VNone = True"
| "py_eq a b = (case num_of a of None \<Rightarrow> False
                | Some x \<Rightarrow> (case num_of b of None \<Rightarrow> False | Some y \<Rightarrow> f_eq x y))"
| "py_eq_list [] [] = True"
| "py_eq_list (x # xs) (y # ys) = (py_eq x y \<and> py_eq_list xs ys)"
| "py_eq_list _ _ = False"

section \<open>The expression tree (Python's \<open>ast\<close> nodes, as far as the evaluator looks)\<close>

datatype binop = Add | Sub | Mult | Div | Mod | Pow
  | FloorDiv | MatMult | LShift | RShift | BitOr | BitXor | BitAnd

datatype unop = USub | UAdd | Not | Invert

datatype cmpop = Gt | Lt | GtE | LtE | Eq | NotEq | In | NotIn | Is | IsNot

datatype boolop = And | Or

text \<open>
  \<open>Call\<close> carries \<open>node.func.id\<close> when the callee is a \<open>Name\<close> and \<open>None\<close> otherwise, and the
  positional arguments. \<open>GeneratorExp\<close> carries \<open>elt\<close>, and \<open>iter\<close> and \<open>ifs\<close> of its first
  generator, which is all the evaluator reads. \<open>OtherNode\<close> is any node class that the
  evaluator has no branch for.
\<close>

datatype node =
    Constant pyval
  | ListN "node list"
  | TupleN "node list"
  | BinOp node binop node
  | UnaryOp unop node
  | Compare node "(cmpop \<times> node) list"
  | BoolOp boolop "node list"
  | Call "pystr option" "node list"
  | Name pystr
  | IfExp node node node
  | GeneratorExp node node "node list"
  | OtherNode

text \<open>
  The exceptions met inside \<open>evaluate\<close>, all subclasses of \<open>Exception\<close>: the \<open>ValueError\<close>s
  the evaluator raises itself, one constructor per message, and those of the operators and
  built-ins it applies. The error text of an outcome is \<open>str(e)\<close>; the model keeps \<open>e\<close>.
\<close>

datatype exn =
    UnsupportedOperator binop
  | UnsupportedUnaryOperator unop
  | UnsupportedFunction "pystr option"
  | UnknownName pystr
  | UnsupportedNode
  | TypeError
  | ZeroDivisionError
  | OverflowError
  | LibraryError

section \<open>The Python library, as far as it is not modelled here\<close>

datatype parse_result = Parsed node | SyntaxError | ParseFailure exn

text \<open>A compiled replacement template of \<open>re.sub\<close>: literal text and group references.\<close>

datatype titem = TLit pystr | TGroup nat

text \<open>
  The result of \<open>float(eval(left_side))\<close>: a float, an exception that is a subclass of
  \<open>Exception\<close>, or anything that an \<open>except Exception\<close> clause does not stop (\<open>SystemExit\<close>,
  \<open>KeyboardInterrupt\<close>, a call that never returns).
\<close>

datatype eval_result = EvalFloat pyfloat | EvalException | EvalEscapes

text \<open>
  What the evaluator takes from CPython and its standard library and this development does
  not define: the parser \<open>ast.parse(text, mode='eval')\<close>; \<open>float(eval(left_side))\<close> inside
  \<open>_extract_calculated_value\<close>, which \<open>eval\<close> runs with the locals of that method, so it is a
  function of the evidence held by \<open>self\<close>, of \<open>expression\<close>, of \<open>op\<close> and of \<open>left_side\<close>; the
  rounding of a real number to a float (an infinity beyond the range of the floats);
  \<open>float(text)\<close> (\<open>None\<close> is its \<open>ValueError\<close>), the shortest decimal form \<open>str(x)\<close> of a float,
  \<open>repr\<close> of a string, the operators on operands whose result is not defined below (\<open>**\<close>, \<open>%\<close> on floats
  and strings, sequence repetition), \<open>max\<close>, \<open>min\<close> and \<open>sum\<close> with a start value, object
  identity of two values that are not \<open>None\<close>, \<open>True\<close> or \<open>False\<close>, \<open>str.isalnum\<close> of a code
  point beyond ASCII, and the parsing of a replacement string that holds a backslash (given
  the number of groups of the pattern).
  Every theorem below holds for every such library; the examples fix one.
\<close>

record pylib =
  ast_parse :: "pystr \<Rightarrow> parse_result"
  float_eval :: "(pystr \<times> pyval) list \<Rightarrow> pystr \<Rightarrow> pystr \<Rightarrow> pystr \<Rightarrow> eval_result"
  float_round :: "real \<Rightarrow> pyfloat"
  float_of_str :: "pystr \<Rightarrow> pyfloat option"
  float_str :: "pyfloat \<Rightarrow> pystr"
  str_repr :: "pystr \<Rightarrow> pystr"
  lib_binop :: "binop \<Rightarrow> pyval \<Rightarrow> pyval \<Rightarrow> exn + pyval"
  lib_call :: "pystr \<Rightarrow> pyval list \<Rightarrow> exn + pyval"
  lib_is :: "pyval \<Rightarrow> pyval \<Rightarrow> bool"
  uni_alnum :: "int \<Rightarrow> bool"
  re_parse_template :: "nat \<Rightarrow> pystr \<Rightarrow> exn + titem list"

section \<open>The operators the evaluator applies (\<open>SAFE_OPERATORS\<close>)\<close>

text \<open>\<open>int / int\<close> is the quotient rounded to a float, an \<open>OverflowError\<close> when that is out
  of range, and a \<open>ZeroDivisionError\<close> when the divisor is zero (which \<open>_eval_node\<close> does
  not let come this far).\<close>

definition arith_int :: "pylib \<Rightarrow> binop \<Rightarrow> pyval \<Rightarrow> pyval \<Rightarrow> int \<Rightarrow> int \<Rightarrow> exn + pyval" where
  "arith_int L op a b i j =
     (case op of
        Add \<Rightarrow> Inr (VInt (i + j))
      | Sub \<Rightarrow> Inr (VInt (i - j))
      | Mult \<Rightarrow> Inr (VInt (i * j))
      | Div \<Rightarrow> (if j = 0 then Inl ZeroDivisionError
                else case float_round L (of_int i / of_int j) of
                       Fin x \<Rightarrow> Inr (VFloat (Fin x))
                     | _ \<Rightarrow> Inl OverflowError)
      | Mod \<Rightarrow> (if j = 0 then Inl ZeroDivisionError else Inr (VInt (i mod j)))
      | _ \<Rightarrow> lib_binop L op a b)"

text \<open>The operand of a float operation as a float: an \<open>int\<close> (or \<open>bool\<close>) is converted, with an
  \<open>OverflowError\<close> when it is too large.\<close>

definition to_float :: "pylib \<Rightarrow> pyval \<Rightarrow> exn + pyfloat" where
  "to_float L v =
     (case v of
        VFloat f \<Rightarrow> Inr f
      | _ \<Rightarrow> (case int_of v of
                None \<Rightarrow> Inl TypeError
              | Some i \<Rightarrow> (case float_round L (of_int i) of
                            Fin x \<Rightarrow> Inr (Fin x)
                          | _ \<Rightarrow> Inl OverflowError)))"

definition arith_float :: "pylib \<Rightarrow> binop \<Rightarrow> pyval \<Rightarrow> pyval \<Rightarrow> exn + pyval" where
  "arith_float L op a b =
     (if op = Add \<or> op = Sub \<or> op = Mult \<or> op = Div then
        (case to_float L a of
           Inl e \<Rightarrow> Inl e
         | Inr x \<Rightarrow>
            (case to_float L b of
               Inl e \<Rightarrow> Inl e
             | Inr y \<Rightarrow>
                if op = Div \<and> f_eq y (Fin 0) then Inl ZeroDivisionError
                else
                Inr (VFloat (if op = Add then f_add (float_round L) x y
                             else if op = Sub then f_add (float_round L) x (f_neg y)
                             else if op = Mult then f_mul (float_round L) x y
                             else f_div (float_round L) x y))))
      else lib_binop L op a b)"

definition arith_seq :: "pylib \<Rightarrow> binop \<Rightarrow> pyval \<Rightarrow> pyval \<Rightarrow> exn + pyval" where
  "arith_seq L op a b =
     (case op of
        Add \<Rightarrow> (case (a, b) of
                  (VStr s, VStr t) \<Rightarrow> Inr (VStr (s @ t))
                | (VList xs, VList ys) \<Rightarrow> Inr (VList (xs @ ys))
                | (VTuple xs, VTuple ys) \<Rightarrow> Inr (VTuple (xs @ ys))
                | _ \<Rightarrow> Inl TypeError)
      | Sub \<Rightarrow> Inl TypeError
      | Div \<Rightarrow> Inl TypeError
      | _ \<Rightarrow> lib_binop L op a b)"

text \<open>\<open>op(left, right)\<close> for \<open>op\<close> one of \<open>operator.add, sub, mul, truediv, mod, pow\<close>.\<close>

definition apply_binop :: "pylib \<Rightarrow> binop \<Rightarrow> pyval \<Rightarrow> pyval \<Rightarrow> exn + pyval" where
  "apply_binop L op a b =
     (case (int_of a, int_of b) of
        (Some i, Some j) \<Rightarrow> arith_int L op a b i j
      | _ \<Rightarrow> (case (num_of a, num_of b) of
                (Some x, Some y) \<Rightarrow> arith_float L op a b
              | _ \<Rightarrow> arith_seq L op a b))"

text \<open>\<open>operator.neg\<close>, \<open>operator.pos\<close>, \<open>operator.not_\<close>.\<close>

definition apply_unop :: "unop \<Rightarrow> pyval \<Rightarrow> exn + pyval" where
  "apply_unop op v =
     (case op of
        Not \<Rightarrow> Inr (VBool (\<not> py_truthy v))
      | USub \<Rightarrow> (case int_of v of Some i \<Rightarrow> Inr (VInt (- i))
                 | None \<Rightarrow> (case num_of v of Some x \<Rightarrow> Inr (VFloat (f_neg x)) | None \<Rightarrow> Inl TypeError))
      | _ \<Rightarrow> (case int_of v of Some i \<Rightarrow> Inr (VInt i)
                 | None \<Rightarrow> (case num_of v of Some x \<Rightarrow> Inr (VFloat x) | None \<Rightarrow> Inl TypeError)))"

fun str_lt :: "pystr \<Rightarrow> pystr \<Rightarrow> bool" where
  "str_lt [] [] = False"
| "str_lt [] (d # t) = True"
| "str_lt (c # s) [] = False"
| "str_lt (c # s) (d # t) = (c < d \<or> (c = d \<and> str_lt s t))"

text \<open>The four order comparisons: \<open>order_of op lt eq\<close> is the answer of \<open>op\<close> given whether the
  left operand is less than, and whether it is equal to, the right one.\<close>

definition order_of :: "cmpop \<Rightarrow> bool \<Rightarrow> bool \<Rightarrow> bool \<Rightarrow> bool" where
  "order_of op lt eq gt =
     (case op of Lt \<Rightarrow> lt | LtE \<Rightarrow> lt \<or> eq | Gt \<Rightarrow> gt | _ \<Rightarrow> gt \<or> eq)"

fun py_order :: "cmpop \<Rightarrow> pyval \<Rightarrow> pyval \<Rightarrow> exn + bool"
  and seq_order :: "cmpop \<Rightarrow> pyval list \<Rightarrow> pyval list \<Rightarrow> exn + bool" where
  "py_order op (VStr s) (VStr t) = Inr (order_of op (str_lt s t) (s = t) (str_lt t s))"
| "py_order op (VList xs) (VList ys) = seq_order op xs ys"
| "py_order op (VTuple xs) (VTuple ys) = seq_order op xs ys"
| "py_order op a b =
     (case num_of a of None \<Rightarrow> Inl TypeError
      | Some x \<Rightarrow> (case num_of b of None \<Rightarrow> Inl TypeError
                   | Some y \<Rightarrow> Inr (order_of op (f_lt x y) (f_eq x y) (f_lt y x))))"
| "seq_order op [] [] = Inr (order_of op False True False)"
| "seq_order op [] (y # ys) = Inr (order_of op True False False)"
| "seq_order op (x # xs) [] = Inr (order_of op False False True)"
| "seq_order op (x # xs) (y # ys) =
     (if py_eq x y then seq_order op xs ys else py_order op x y)"

fun is_infix :: "pystr \<Rightarrow> pystr \<Rightarrow> bool" where
  "is_infix t [] = (t = [])"
| "is_infix t (c # s) = (take (length t) (c # s) = t \<or> is_infix t s)"

text \<open>\<open>item in container\<close>.\<close>

fun py_contains :: "pyval \<Rightarrow> pyval \<Rightarrow> exn + bool" where
  "py_contains item (VList xs) = Inr (list_ex (\<lambda>x. py_eq x item) xs)"
| "py_contains item (VTuple xs) = Inr (list_ex (\<lambda>x. py_eq x item) xs)"
| "py_contains (VStr t) (VStr s) = Inr (is_infix t s)"
| "py_contains _ _ = Inl TypeError"

text \<open>\<open>left is right\<close>: decided here for the singletons \<open>None\<close>, \<open>True\<close> and \<open>False\<close>.\<close>

fun py_is :: "pylib \<Rightarrow> pyval \<Rightarrow> pyval \<Rightarrow> bool" where
  "py_is L VNone b = (b = VNone)"
| "py_is L a VNone = False"
| "py_is L (VBool x) b = (b = VBool x)"
| "py_is L a (VBool y) = False"
| "py_is L a b = lib_is L a b"

text \<open>One step of a comparison chain: whether \<open>left op right\<close> holds.\<close>

definition compare_op :: "pylib \<Rightarrow> cmpop \<Rightarrow> pyval \<Rightarrow> pyval \<Rightarrow> exn + bool" where
  "compare_op L op left right =
     (case op of
        Eq \<Rightarrow> Inr (py_eq left right)
      | NotEq \<Rightarrow> Inr (\<not> py_eq left right)
      | In \<Rightarrow> py_contains left right
      | NotIn \<Rightarrow> (case py_contains left right of Inl e \<Rightarrow> Inl e | Inr b \<Rightarrow> Inr (\<not> b))
      | Is \<Rightarrow> Inr (py_is L left right)
      | IsNot \<Rightarrow> Inr (\<not> py_is L left right)
      | _ \<Rightarrow> py_order op left right)"

section \<open>The functions the evaluator calls (\<open>SAFE_FUNCTIONS\<close>)\<close>

text \<open>Iterating over a value: a list or tuple gives its elements, a string its characters.\<close>

fun py_iter :: "pyval \<Rightarrow> pyval list option" where
  "py_iter (VList xs) = Some xs"
| "py_iter (VTuple xs) = Some xs"
| "py_iter (VStr s) = Some (map (\<lambda>c. VStr [c]) s)"
| "py_iter _ = None"

fun py_sum :: "pylib \<Rightarrow> pyval \<Rightarrow> pyval list \<Rightarrow> exn + pyval" where
  "py_sum L acc [] = Inr acc"
| "py_sum L acc (x # xs) =
     (case apply_binop L Add acc x of Inl e \<Rightarrow> Inl e | Inr acc' \<Rightarrow> py_sum L acc' xs)"

definition safe_function_names :: "pystr list" where
  "safe_function_names = [u ''abs'', u ''max'', u ''min'', u ''sum'', u ''len'', u ''COUNT'']"

definition call_safe_function :: "pylib \<Rightarrow> pystr \<Rightarrow> pyval list \<Rightarrow> exn + pyval" where
  "call_safe_function L f args =
     (if f = u ''abs'' then
        (case args of
           [v] \<Rightarrow> (case int_of v of Some i \<Rightarrow> Inr (VInt (abs i))
                  | None \<Rightarrow> (case num_of v of
                               Some x \<Rightarrow> Inr (VFloat (if f_lt x (Fin 0) then f_neg x else x))
                             | None \<Rightarrow> Inl TypeError))
         | _ \<Rightarrow> Inl TypeError)
      else if f = u ''len'' then
        (case args of
           [VStr s] \<Rightarrow> Inr (VInt (int (length s)))
         | [VList xs] \<Rightarrow> Inr (VInt (int (length xs)))
         | [VTuple xs] \<Rightarrow> Inr (VInt (int (length xs)))
         | _ \<Rightarrow> Inl TypeError)
      else if f = u ''sum'' then
        (case args of
           [v] \<Rightarrow> (case py_iter v of None \<Rightarrow> Inl TypeError | Some xs \<Rightarrow> py_sum L (VInt 0) xs)
         | _ \<Rightarrow> lib_call L f args)
      else if f = u ''COUNT'' then
        (case args of
           [VList xs] \<Rightarrow> Inr (VInt (int (length (filter py_truthy xs))))
         | [VTuple xs] \<Rightarrow> Inr (VInt (int (length (filter py_truthy xs))))
         | [v] \<Rightarrow> Inr (VInt (if py_truthy v then 1 else 0))
         | _ \<Rightarrow> Inl TypeError)
      else lib_call L f args)"

section \<open>\<open>LogicEvaluator._eval_node\<close>\<close>

definition safe_binops :: "binop list" where
  "safe_binops = [Add, Sub, Mult, Div, Mod, Pow]"

definition safe_unops :: "unop list" where
  "safe_unops = [USub, UAdd, Not]"

fun eval_node :: "pylib \<Rightarrow> node \<Rightarrow> exn + pyval"
  and eval_elts :: "pylib \<Rightarrow> node list \<Rightarrow> exn + pyval list"
  and eval_compare :: "pylib \<Rightarrow> pyval \<Rightarrow> (cmpop \<times> node) list \<Rightarrow> exn + pyval"
  and eval_all :: "pylib \<Rightarrow> node list \<Rightarrow> exn + bool"
  and eval_any :: "pylib \<Rightarrow> node list \<Rightarrow> exn + bool"
  and eval_each :: "pylib \<Rightarrow> node \<Rightarrow> pyval list \<Rightarrow> exn + pyval list" where
  "eval_node L (Constant v) = Inr v"
| "eval_node L (ListN elts) =
     (case eval_elts L elts of Inl e \<Rightarrow> Inl e | Inr vs \<Rightarrow> Inr (VList vs))"
| "eval_node L (TupleN elts) =
     (case eval_elts L elts of Inl e \<Rightarrow> Inl e | Inr vs \<Rightarrow> Inr (VTuple vs))"
| "eval_node L (BinOp l op r) =
     (case eval_node L l of Inl e \<Rightarrow> Inl e
      | Inr left \<Rightarrow>
         (case eval_node L r of Inl e \<Rightarrow> Inl e
          | Inr right \<Rightarrow>
             if op \<in> set safe_binops then
               (if op = Div \<and> py_eq right (VInt 0) then Inr (VFloat PInf)
                else apply_binop L op left right)
             else Inl (UnsupportedOperator op)))"
| "eval_node L (UnaryOp op operand) =
     (case eval_node L operand of Inl e \<Rightarrow> Inl e
      | Inr v \<Rightarrow> if op \<in> set safe_unops then apply_unop op v
                 else Inl (UnsupportedUnaryOperator op))"
| "eval_node L (Compare l pairs) =
     (case eval_node L l of Inl e \<Rightarrow> Inl e | Inr left \<Rightarrow> eval_compare L left pairs)"
| "eval_node L (BoolOp And vs) =
     (case eval_all L vs of Inl e \<Rightarrow> Inl e | Inr b \<Rightarrow> Inr (VBool b))"
| "eval_node L (BoolOp Or vs) =
     (case eval_any L vs of Inl e \<Rightarrow> Inl e | Inr b \<Rightarrow> Inr (VBool b))"
| "eval_node L (Call func_name args) =
     (case func_name of
        None \<Rightarrow> Inl (UnsupportedFunction None)
      | Some f \<Rightarrow>
         if f \<in> set safe_function_names then
           (case eval_elts L args of Inl e \<Rightarrow> Inl e | Inr vs \<Rightarrow> call_safe_function L f vs)
         else Inl (UnsupportedFunction (Some f)))"
| "eval_node L (Name ident) =
     (if ident = u ''True'' then Inr (VBool True)
      else if ident = u ''False'' then Inr (VBool False)
      else if ident = u ''None'' then Inr VNone
      else Inl (UnknownName ident))"
| "eval_node L (IfExp test body orelse) =
     (case eval_node L test of Inl e \<Rightarrow> Inl e
      | Inr t \<Rightarrow> if py_truthy t then eval_node L body else eval_node L orelse)"
| "eval_node L (GeneratorExp elt iter ifs) =
     (case eval_node L iter of Inl e \<Rightarrow> Inl e
      | Inr iter_val \<Rightarrow>
         (case py_iter iter_val of None \<Rightarrow> Inl TypeError
          | Some items \<Rightarrow>
             (case eval_each L elt items of Inl e \<Rightarrow> Inl e | Inr result \<Rightarrow> Inr (VList result))))"
| "eval_node L OtherNode = Inl UnsupportedNode"
| "eval_elts L [] = Inr []"
| "eval_elts L (el # els) =
     (case eval_node L el of Inl e \<Rightarrow> Inl e
      | Inr v \<Rightarrow> (case eval_elts L els of Inl e \<Rightarrow> Inl e | Inr vs \<Rightarrow> Inr (v # vs)))"
| "eval_compare L left [] = Inr (VBool True)"
| "eval_compare L left (p # rest) =
     (case eval_node L (snd p) of Inl e \<Rightarrow> Inl e
      | Inr right \<Rightarrow>
         (case compare_op L (fst p) left right of Inl e \<Rightarrow> Inl e
          | Inr holds \<Rightarrow> if holds then eval_compare L right rest else Inr (VBool False)))"
| "eval_all L [] = Inr True"
| "eval_all L (v # vs) =
     (case eval_node L v of Inl e \<Rightarrow> Inl e
      | Inr x \<Rightarrow> if py_truthy x then eval_all L vs else Inr False)"
| "eval_any L [] = Inr False"
| "eval_any L (v # vs) =
     (case eval_node L v of Inl e \<Rightarrow> Inl e
      | Inr x \<Rightarrow> if py_truthy x then Inr True else eval_any L vs)"
| "eval_each L elt [] = Inr []"
| "eval_each L elt (item # items) =
     (case eval_node L elt of Inl e \<Rightarrow> Inl e
      | Inr v \<Rightarrow> (case eval_each L elt items of Inl e \<Rightarrow> Inl e | Inr vs \<Rightarrow> Inr (v # vs)))"

section \<open>Strings and regular expressions\<close>

text \<open>\<open>str.isspace\<close>, which is also the class \<open>\s\<close> of a \<open>str\<close> pattern.\<close>

definition py_isspace :: "int \<Rightarrow> bool" where
  "py_isspace c = ((9 \<le> c \<and> c \<le> 13) \<or> (28 \<le> c \<and> c \<le> 32) \<or> c = 133 \<or> c = 160
     \<or> c = 5760 \<or> (8192 \<le> c \<and> c \<le> 8202) \<or> c = 8232 \<or> c = 8233 \<or> c = 8239
     \<or> c = 8287 \<or> c = 12288)"

text \<open>The class \<open>\w\<close> of a \<open>str\<close> pattern: alphanumeric or underscore.\<close>

definition is_word :: "pylib \<Rightarrow> int \<Rightarrow> bool" where
  "is_word L c =
     (if c < 128 then (48 \<le> c \<and> c \<le> 57) \<or> (65 \<le> c \<and> c \<le> 90) \<or> (97 \<le> c \<and> c \<le> 122) \<or> c = 95
      else uni_alnum L c)"

definition strip :: "pystr \<Rightarrow> pystr" where
  "strip s = rev (dropWhile py_isspace (rev (dropWhile py_isspace s)))"

text \<open>The maximal runs of characters that satisfy \<open>P\<close>, left to right: \<open>re.findall\<close> of a
  pattern \<open>[...]+\<close>, and \<open>str.split()\<close> for the characters that are not white space.\<close>

fun runs_of :: "(int \<Rightarrow> bool) \<Rightarrow> pystr \<Rightarrow> pystr \<Rightarrow> pystr list" where
  "runs_of P cur [] = (if cur = [] then [] else [cur])"
| "runs_of P cur (c # s) =
     (if P c then runs_of P (cur @ [c]) s
      else if cur = [] then runs_of P [] s else cur # runs_of P [] s)"

fun join :: "pystr \<Rightarrow> pystr list \<Rightarrow> pystr" where
  "join sep [] = []"
| "join sep [w] = w"
| "join sep (w # ws) = w @ sep @ join sep ws"

text \<open>\<open>text.split(sep)\<close> for a separator that is not empty; \<open>k\<close> counts the characters of a
  separator just found that are still to be skipped.\<close>

fun split_lit :: "pystr \<Rightarrow> pystr \<Rightarrow> nat \<Rightarrow> pystr \<Rightarrow> pystr list" where
  "split_lit sep cur k [] = [cur]"
| "split_lit sep cur k (c # s) =
     (if 0 < k then split_lit sep cur (k - 1) s
      else if take (length sep) (c # s) = sep then cur # split_lit sep [] (length sep - 1) s
      else split_lit sep (cur @ [c]) 0 s)"

text \<open>The patterns of the evaluator use these constructs of \<open>re\<close>. Groups are numbered as in
  the pattern.\<close>

datatype rx =
    RChar int
  | RClass "int \<Rightarrow> bool"
  | RSeq rx rx
  | RAlt rx rx
  | RStar rx
  | RGroup nat rx
  | RWordB
  | REmpty

definition rplus :: "rx \<Rightarrow> rx" where
  "rplus r = RSeq r (RStar r)"

definition rx_cat :: "rx list \<Rightarrow> rx" where
  "rx_cat rs = foldr RSeq rs REmpty"

definition rx_lit :: "pystr \<Rightarrow> rx" where
  "rx_lit s = rx_cat (map RChar s)"

type_synonym caps = "(nat \<times> nat \<times> nat) list"

text \<open>\<open>\b\<close> at position \<open>p\<close> of \<open>s\<close>: exactly one of the characters before and after is a word
  character (the ends of the text count as non-word).\<close>

definition word_boundary :: "(int \<Rightarrow> bool) \<Rightarrow> pystr \<Rightarrow> nat \<Rightarrow> bool" where
  "word_boundary w s p =
     ((0 < p \<and> p \<le> length s \<and> w (s ! (p - 1))) \<noteq> (p < length s \<and> w (s ! p)))"

text \<open>
  The backtracking matcher. \<open>rx_match w s r (p, g)\<close> lists every way \<open>r\<close> can match \<open>s\<close> from
  position \<open>p\<close> with the groups \<open>g\<close> set so far, as the end position and the groups, in the
  order in which \<open>re\<close> tries them: the left alternative before the right one, one more
  iteration of a (greedy) repetition before stopping. \<open>re\<close> takes the first that lets the
  rest of the pattern match. \<open>match_all\<close> continues every result of the first part of a
  sequence with the second part; \<open>star_all\<close> continues every result of one iteration that
  has consumed text with further iterations.
\<close>

function rx_match :: "(int \<Rightarrow> bool) \<Rightarrow> pystr \<Rightarrow> rx \<Rightarrow> nat \<times> caps \<Rightarrow> (nat \<times> caps) list"
  and match_all :: "(int \<Rightarrow> bool) \<Rightarrow> pystr \<Rightarrow> rx \<Rightarrow> (nat \<times> caps) list \<Rightarrow> (nat \<times> caps) list"
  and star_all :: "(int \<Rightarrow> bool) \<Rightarrow> pystr \<Rightarrow> rx \<Rightarrow> nat \<Rightarrow> (nat \<times> caps) list \<Rightarrow> (nat \<times> caps) list" where
  "rx_match w s (RChar c) pg =
     (if fst pg < length s \<and> s ! fst pg = c then [(Suc (fst pg), snd pg)] else [])"
| "rx_match w s (RClass P) pg =
     (if fst pg < length s \<and> P (s ! fst pg) then [(Suc (fst pg), snd pg)] else [])"
| "rx_match w s (RSeq a b) pg = match_all w s b (rx_match w s a pg)"
| "rx_match w s (RAlt a b) pg = rx_match w s a pg @ rx_match w s b pg"
| "rx_match w s (RStar a) pg = star_all w s a (fst pg) (rx_match w s a pg) @ [pg]"
| "rx_match w s (RGroup n a) pg =
     map (\<lambda>qg. (fst qg, (n, fst pg, fst qg) # snd qg)) (rx_match w s a pg)"
| "rx_match w s RWordB pg = (if word_boundary w s (fst pg) then [pg] else [])"
| "rx_match w s REmpty pg = [pg]"
| "match_all w s r [] = []"
| "match_all w s r (qg # qgs) = rx_match w s r qg @ match_all w s r qgs"
| "star_all w s a p [] = []"
| "star_all w s a p (qg # qgs) =
     (if p < fst qg \<and> fst qg \<le> length s then rx_match w s (RStar a) qg else [])
       @ star_all w s a p qgs"
  by pat_completeness auto
termination
  by (relation "inv_image (less_than <*lex*> less_than <*lex*> less_than)
        (\<lambda>x. case x of
           Inl (w, s, r, pg) \<Rightarrow> (size r, 2 * (length s - fst pg) + 1, 0)
         | Inr (Inl (w, s, r, qgs)) \<Rightarrow> (size r, 2 * length s + 2, length qgs)
         | Inr (Inr (w, s, a, p, qgs)) \<Rightarrow> (size (RStar a), 2 * (length s - p), length qgs))")
     auto

text \<open>The first match that starts at \<open>b\<close>; with \<open>must_advance\<close>, an empty match is passed over.\<close>

definition first_match :: "(int \<Rightarrow> bool) \<Rightarrow> pystr \<Rightarrow> rx \<Rightarrow> nat \<Rightarrow> bool \<Rightarrow> (nat \<times> caps) option" where
  "first_match w s r b must_advance =
     (case filter (\<lambda>qg. \<not> (must_advance \<and> fst qg = b)) (rx_match w s r (b, [])) of
        [] \<Rightarrow> None
      | qg # _ \<Rightarrow> Some qg)"

text \<open>\<open>re.search\<close>: the leftmost start with a match; the result is start, end and groups.\<close>

fun search_from :: "(int \<Rightarrow> bool) \<Rightarrow> pystr \<Rightarrow> rx \<Rightarrow> nat list \<Rightarrow> (nat \<times> nat \<times> caps) option" where
  "search_from w s r [] = None"
| "search_from w s r (b # bs) =
     (case first_match w s r b False of
        None \<Rightarrow> search_from w s r bs
      | Some qg \<Rightarrow> Some (b, fst qg, snd qg))"

definition re_search :: "(int \<Rightarrow> bool) \<Rightarrow> rx \<Rightarrow> pystr \<Rightarrow> (nat \<times> nat \<times> caps) option" where
  "re_search w r s = search_from w s r [0 ..< Suc (length s)]"

text \<open>\<open>match.group(n)\<close>; a group that took no part in the match gives the empty string in a
  replacement.\<close>

definition group_text :: "pystr \<Rightarrow> caps \<Rightarrow> nat \<Rightarrow> pystr" where
  "group_text s g n =
     (case map_of g n of None \<Rightarrow> [] | Some be \<Rightarrow> take (snd be - fst be) (drop (fst be) s))"

fun expand :: "titem list \<Rightarrow> pystr \<Rightarrow> caps \<Rightarrow> pystr" where
  "expand [] s g = []"
| "expand (TLit t # items) s g = t @ expand items s g"
| "expand (TGroup n # items) s g = group_text s g n @ expand items s g"

text \<open>
  The loop of \<open>re.sub\<close> over the start positions, each listed twice: \<open>i\<close> is the end of the last
  match, and after an empty match the search resumes at the same position with
  \<open>must_advance\<close> set. Text between matches is copied.
\<close>

fun sub_loop :: "(int \<Rightarrow> bool) \<Rightarrow> pystr \<Rightarrow> rx \<Rightarrow> titem list \<Rightarrow> nat list \<Rightarrow> nat \<Rightarrow> bool \<Rightarrow> pystr" where
  "sub_loop w s r t [] i adv = drop i s"
| "sub_loop w s r t (b # bs) i adv =
     (if b < i then sub_loop w s r t bs i adv
      else (case first_match w s r b (adv \<and> b = i) of
              None \<Rightarrow> sub_loop w s r t bs i adv
            | Some qg \<Rightarrow>
                take (b - i) (drop i s) @ expand t s (snd qg)
                  @ sub_loop w s r t bs (fst qg) (fst qg = b)))"

definition re_sub :: "(int \<Rightarrow> bool) \<Rightarrow> rx \<Rightarrow> titem list \<Rightarrow> pystr \<Rightarrow> pystr" where
  "re_sub w r t s = sub_loop w s r t (concat (map (\<lambda>b. [b, b]) [0 ..< Suc (length s)])) 0 False"

text \<open>A replacement given as a string: literal unless it holds a backslash (code point 92).\<close>

definition compile_template :: "pylib \<Rightarrow> nat \<Rightarrow> pystr \<Rightarrow> exn + titem list" where
  "compile_template L ngroups repl =
     (if 92 \<in> set repl then re_parse_template L ngroups repl else Inr [TLit repl])"

text \<open>\<open>text.replace(old, new)\<close> for a literal \<open>old\<close> that is not empty: the occurrences from
  left to right, not overlapping, as \<open>re.sub\<close> of the literal pattern finds them.\<close>

definition str_replace :: "pystr \<Rightarrow> pystr \<Rightarrow> pystr \<Rightarrow> pystr" where
  "str_replace old new s = re_sub (\<lambda>c. False) (rx_lit old) [TLit new] s"

section \<open>\<open>LogicEvaluator\<close> (audit/evaluator.py)\<close>

subsection \<open>The patterns\<close>

text \<open>\<open>\bKEY\b\<close>, for \<open>AND\<close>, \<open>OR\<close>, \<open>NOT\<close> and for \<open>re.escape(key)\<close> of a field name.\<close>

definition word_pattern :: "pystr \<Rightarrow> rx" where
  "word_pattern k = rx_cat [RWordB, rx_lit k, RWordB]"

text \<open>\<open>(\w+)\s*\<close>, the two characters U+5305 U+542B, \<open>\s*\[([^\]]+)\]\<close>.\<close>

definition contains_pattern :: "pylib \<Rightarrow> rx" where
  "contains_pattern L =
     rx_cat [RGroup 1 (rplus (RClass (is_word L))), RStar (RClass py_isspace),
             rx_lit [21253, 21547], RStar (RClass py_isspace), RChar 91,
             RGroup 2 (rplus (RClass (\<lambda>c. c \<noteq> 93))), RChar 93]"

text \<open>\<open>(\w+)\s+in\s+\[([^\]]+)\]\<close>\<close>

definition in_pattern :: "pylib \<Rightarrow> rx" where
  "in_pattern L =
     rx_cat [RGroup 1 (rplus (RClass (is_word L))), rplus (RClass py_isspace),
             rx_lit (u ''in''), rplus (RClass py_isspace), RChar 91,
             RGroup 2 (rplus (RClass (\<lambda>c. c \<noteq> 93))), RChar 93]"

text \<open>\<open>COUNT\(([^)]+)\s*(<|>|<=|>=|==)\s*([^)]+)\)\<close>, the alternatives in the source's order.\<close>

definition count_pattern :: rx where
  "count_pattern =
     rx_cat [rx_lit (u ''COUNT''), RChar 40, RGroup 1 (rplus (RClass (\<lambda>c. c \<noteq> 41))),
             RStar (RClass py_isspace),
             RGroup 2 (RAlt (RChar 60) (RAlt (RChar 62) (RAlt (rx_lit (u ''<=''))
                         (RAlt (rx_lit (u ''>='')) (rx_lit (u ''=='')))))),
             RStar (RClass py_isspace), RGroup 3 (rplus (RClass (\<lambda>c. c \<noteq> 41))), RChar 41]"

text \<open>\<open>COUNT\(([^)]+)\)\<close>\<close>

definition simple_count_pattern :: rx where
  "simple_count_pattern =
     rx_cat [rx_lit (u ''COUNT''), RChar 40, RGroup 1 (rplus (RClass (\<lambda>c. c \<noteq> 41))), RChar 41]"

text \<open>\<open>[><=!]+\s*([0-9.]+)\<close>\<close>

definition threshold_pattern :: rx where
  "threshold_pattern =
     rx_cat [rplus (RClass (\<lambda>c. c = 62 \<or> c = 60 \<or> c = 61 \<or> c = 33)), RStar (RClass py_isspace),
             RGroup 1 (rplus (RClass (\<lambda>c. (48 \<le> c \<and> c \<le> 57) \<or> c = 46)))]"

subsection \<open>\<open>_preprocess_schema\<close>\<close>

text \<open>The rewrite of \<open>COUNT(list op value)\<close>: the replacement is built from the first match and
  then substituted for every match.\<close>

definition count_rewrite :: "pylib \<Rightarrow> pystr \<Rightarrow> exn + pystr" where
  "count_rewrite L processed =
     (case re_search (is_word L) count_pattern processed of
        None \<Rightarrow> Inr processed
      | Some m \<Rightarrow>
         (let g = snd (snd m);
              list_name = strip (group_text processed g 1);
              op = group_text processed g 2;
              val = strip (group_text processed g 3)
          in case compile_template L 3
                    (u ''sum(1 for x in '' @ list_name @ u '' if x '' @ op @ u '' '' @ val @ u '')'') of
               Inl e \<Rightarrow> Inl e
             | Inr t \<Rightarrow> Inr (re_sub (is_word L) count_pattern t processed)))"

definition preprocess_schema :: "pylib \<Rightarrow> pystr \<Rightarrow> exn + pystr" where
  "preprocess_schema L schema =
     (let w = is_word L;
          p1 = re_sub w (word_pattern (u ''AND'')) [TLit (u '' and '')] schema;
          p2 = re_sub w (word_pattern (u ''OR'')) [TLit (u '' or '')] p1;
          p3 = re_sub w (word_pattern (u ''NOT'')) [TLit (u '' not '')] p2;
          p4 = re_sub w (contains_pattern L)
                 [TLit (u ''any(item in ''), TGroup 1, TLit (u '' for item in [''), TGroup 2,
                  TLit (u ''])'')] p3;
          p5 = re_sub w (in_pattern L) [TGroup 1, TLit (u '' in [''), TGroup 2, TLit (u '']'')] p4;
          p6 = str_replace (u ''== NULL'') (u ''is None'') p5;
          p7 = str_replace (u ''== None'') (u ''is None'') p6
      in case count_rewrite L p7 of
           Inl e \<Rightarrow> Inl e
         | Inr p8 \<Rightarrow>
             Inr (re_sub w simple_count_pattern
                    (if is_infix (u ''=='') p8
                     then [TLit (u ''len([x for x in ''), TGroup 1, TLit (u '' if x])'')]
                     else [TLit (u ''len(''), TGroup 1, TLit (u '')'')])
                    p8))"

subsection \<open>\<open>_substitute_values\<close>\<close>

text \<open>The decimal digits of an integer that is not negative.\<close>

function dec_digits :: "int \<Rightarrow> pystr" where
  "dec_digits n = (if n < 10 then [48 + n] else dec_digits (n div 10) @ [48 + n mod 10])"
  by pat_completeness auto
termination
  by (relation "measure nat") auto

definition str_int :: "int \<Rightarrow> pystr" where
  "str_int i = (if i < 0 then 45 # dec_digits (- i) else dec_digits i)"

text \<open>\<open>repr\<close> of a value; it is also \<open>str\<close> of a value that is not a string.\<close>

fun py_repr :: "pylib \<Rightarrow> pyval \<Rightarrow> pystr"
  and py_repr_items :: "pylib \<Rightarrow> pyval list \<Rightarrow> pystr" where
  "py_repr L VNone = u ''None''"
| "py_repr L (VBool b) = (if b then u ''True'' else u ''False'')"
| "py_repr L (VInt i) = str_int i"
| "py_repr L (VFloat f) = float_str L f"
| "py_repr L (VStr s) = str_repr L s"
| "py_repr L (VList xs) = u ''['' @ py_repr_items L xs @ u '']''"
| "py_repr L (VTuple xs) =
     u ''('' @ py_repr_items L xs @ (if length xs = 1 then u '','' else []) @ u '')''"
| "py_repr_items L [] = []"
| "py_repr_items L [x] = py_repr L x"
| "py_repr_items L (x # y # xs) = py_repr L x @ u '', '' @ py_repr_items L (y # xs)"

text \<open>The text put in place of a field name (34 is the double quote).\<close>

definition replacement_of :: "pylib \<Rightarrow> pyval \<Rightarrow> pystr" where
  "replacement_of L v =
     (case v of
        VBool b \<Rightarrow> (if b then u ''True'' else u ''False'')
      | VStr s \<Rightarrow> [34] @ s @ [34]
      | _ \<Rightarrow> py_repr L v)"

text \<open>A \<open>dict\<close> is an association list in insertion order; \<open>d[k] = v\<close> keeps the place of a key
  that is there and appends a new one.\<close>

type_synonym pydict = "(pystr \<times> pyval) list"

fun dict_set :: "('k \<times> 'v) list \<Rightarrow> 'k \<Rightarrow> 'v \<Rightarrow> ('k \<times> 'v) list" where
  "dict_set [] k v = [(k, v)]"
| "dict_set (kv # d) k v = (if fst kv = k then (k, v) # d else kv # dict_set d k v)"

text \<open>\<open>sorted(financial_data.keys(), key=len, reverse=True)\<close>: longest first, keys of equal
  length in their order in the \<open>dict\<close>.\<close>

definition sorted_keys :: "pydict \<Rightarrow> pystr list" where
  "sorted_keys d = sort_key (\<lambda>k. - int (length k)) (map fst d)"

text \<open>The loop over the keys. The evidence is the evaluator's attribute \<open>_evidence\<close>: it is
  returned also when a substitution raises.\<close>

fun substitute_loop :: "pylib \<Rightarrow> pydict \<Rightarrow> pystr list \<Rightarrow> pydict \<Rightarrow> pystr \<Rightarrow> pydict \<times> (exn + pystr)" where
  "substitute_loop L d [] ev result = (ev, Inr result)"
| "substitute_loop L d (key # keys) ev result =
     (case map_of d key of
        None \<Rightarrow> substitute_loop L d keys ev result
      | Some v \<Rightarrow>
         if v = VNone then substitute_loop L d keys ev result
         else (case compile_template L 0 (replacement_of L v) of
                 Inl e \<Rightarrow> (dict_set ev key v, Inl e)
               | Inr t \<Rightarrow>
                   substitute_loop L d keys (dict_set ev key v)
                     (re_sub (is_word L) (word_pattern key) t result)))"

definition substitute_values :: "pylib \<Rightarrow> pystr \<Rightarrow> pydict \<Rightarrow> pydict \<times> (exn + pystr)" where
  "substitute_values L schema financial_data =
     substitute_loop L financial_data (sorted_keys financial_data) [] schema"

subsection \<open>\<open>_has_missing_data\<close> and \<open>_get_missing_fields\<close>\<close>

definition is_cjk :: "int \<Rightarrow> bool" where
  "is_cjk c = (19968 \<le> c \<and> c \<le> 40959)"

text \<open>The loop over the characters flips \<open>in_string\<close> at every quote (34 and 39); the matches
  themselves are not filtered.\<close>

definition has_missing_data :: "pystr \<Rightarrow> bool" where
  "has_missing_data substituted =
     (let matches = runs_of is_cjk [] substituted;
          in_string = foldl (\<lambda>b c. if c = 34 \<or> c = 39 then \<not> b else b) False substituted
      in matches \<noteq> [] \<and> \<not> in_string)"

text \<open>\<open>list(set(missing))\<close>: the order of the result is not fixed by Python; the model lists
  each missing name once, in the order of its first occurrence.\<close>

definition get_missing_fields :: "pystr \<Rightarrow> pydict \<Rightarrow> pystr list" where
  "get_missing_fields schema financial_data =
     remdups (filter (\<lambda>field. map_of financial_data field = None
                             \<or> map_of financial_data field = Some VNone)
                (runs_of (\<lambda>c. is_cjk c \<or> c = 95) [] schema))"

subsection \<open>\<open>_simple_eval\<close>, \<open>_safe_eval\<close> and the two extractions\<close>

definition simple_compare :: "pystr \<Rightarrow> pyfloat \<Rightarrow> pyfloat \<Rightarrow> bool" where
  "simple_compare op left right =
     (if op = u '' >= '' then f_lt right left \<or> f_eq left right
      else if op = u '' <= '' then f_lt left right \<or> f_eq left right
      else if op = u '' > '' then f_lt right left
      else if op = u '' < '' then f_lt left right
      else if op = u '' == '' then f_eq left right
      else \<not> f_eq left right)"

text \<open>The loop over the operators: a \<open>ValueError\<close> of \<open>float\<close> leaves the loop and gives \<open>False\<close>.\<close>

fun simple_loop :: "pylib \<Rightarrow> pystr \<Rightarrow> pystr list \<Rightarrow> bool" where
  "simple_loop L expr [] = False"
| "simple_loop L expr (op # ops) =
     (if is_infix op expr then
        (let parts = split_lit op [] 0 expr in
         if length parts = 2 then
           (case float_of_str L (strip (parts ! 0)) of
              None \<Rightarrow> False
            | Some left \<Rightarrow>
               (case float_of_str L (strip (parts ! 1)) of
                  None \<Rightarrow> False
                | Some right \<Rightarrow> simple_compare op left right))
         else simple_loop L expr ops)
      else simple_loop L expr ops)"

definition simple_eval :: "pylib \<Rightarrow> pystr \<Rightarrow> bool" where
  "simple_eval L expression =
     simple_loop L (join (u '' '') (runs_of (\<lambda>c. \<not> py_isspace c) [] expression))
       [u '' >= '', u '' <= '', u '' > '', u '' < '', u '' == '', u '' != '']"

definition safe_eval :: "pylib \<Rightarrow> pystr \<Rightarrow> exn + pyval" where
  "safe_eval L expression =
     (case ast_parse L expression of
        Parsed tree \<Rightarrow> eval_node L tree
      | SyntaxError \<Rightarrow> Inr (VBool (simple_eval L expression))
      | ParseFailure e \<Rightarrow> Inl e)"

text \<open>A call either returns to its caller or does not (an exception that is no \<open>Exception\<close>
  passes every handler of the evaluator).\<close>

datatype 'a completion = Returns 'a | Escapes

fun calculated_loop :: "pylib \<Rightarrow> pydict \<Rightarrow> pystr \<Rightarrow> pystr list \<Rightarrow> pyfloat option completion" where
  "calculated_loop L ev expression [] = Returns None"
| "calculated_loop L ev expression (op # ops) =
     (if is_infix op expression then
        (case float_eval L ev expression op (strip (hd (split_lit op [] 0 expression))) of
           EvalFloat x \<Rightarrow> Returns (Some x)
         | EvalException \<Rightarrow> calculated_loop L ev expression ops
         | EvalEscapes \<Rightarrow> Escapes)
      else calculated_loop L ev expression ops)"

text \<open>\<open>_extract_calculated_value\<close>; \<open>ev\<close> is the evidence that \<open>self\<close> holds when it is called.\<close>

definition extract_calculated_value :: "pylib \<Rightarrow> pydict \<Rightarrow> pystr \<Rightarrow> pyfloat option completion" where
  "extract_calculated_value L ev expression =
     calculated_loop L ev expression
       [u '' > '', u '' < '', u '' >= '', u '' <= '', u '' == '']"

definition extract_threshold_value :: "pylib \<Rightarrow> pystr \<Rightarrow> pyfloat option" where
  "extract_threshold_value L expression =
     (case re_search (is_word L) threshold_pattern expression of
        None \<Rightarrow> None
      | Some m \<Rightarrow> float_of_str L (group_text expression (snd (snd m)) 1))"

subsection \<open>\<open>evaluate\<close>\<close>

datatype error_text = InsufficientData | ErrorOf exn

text \<open>The result \<open>dict\<close>. A key that a return statement leaves out reads as \<open>None\<close> here.\<close>

record EvaluationOutcome =
  violation :: bool
  evidence :: pydict
  calculated_value :: "pyfloat option"
  threshold_value :: "pyfloat option"
  error :: "error_text option"
  missing_fields :: "pystr list option"

text \<open>The \<open>except Exception\<close> branch.\<close>

definition error_outcome :: "pydict \<Rightarrow> exn \<Rightarrow> EvaluationOutcome" where
  "error_outcome ev e =
     \<lparr> violation = False, evidence = ev, calculated_value = None, threshold_value = None,
       error = Some (ErrorOf e), missing_fields = None \<rparr>"

definition evaluate :: "pylib \<Rightarrow> pystr \<Rightarrow> pydict \<Rightarrow> EvaluationOutcome completion" where
  "evaluate L logic_schema financial_data =
     (case preprocess_schema L logic_schema of
        Inl e \<Rightarrow> Returns (error_outcome [] e)
      | Inr processed \<Rightarrow>
         (case substitute_values L processed financial_data of
            (ev, Inl e) \<Rightarrow> Returns (error_outcome ev e)
          | (ev, Inr substituted) \<Rightarrow>
             if has_missing_data substituted then
               Returns \<lparr> violation = False, evidence = ev, calculated_value = None,
                         threshold_value = None, error = Some InsufficientData,
                         missing_fields = Some (get_missing_fields processed financial_data) \<rparr>
             else
               (case safe_eval L substituted of
                  Inl e \<Rightarrow> Returns (error_outcome ev e)
                | Inr result \<Rightarrow>
                   (case extract_calculated_value L ev substituted of
                      Escapes \<Rightarrow> Escapes
                    | Returns cv \<Rightarrow>
                       Returns \<lparr> violation = py_truthy result, evidence = ev,
                                 calculated_value = cv,
                                 threshold_value = extract_threshold_value L logic_schema,
                                 error = None, missing_fields = None \<rparr>))))"

section \<open>Findings and the report accumulator (models/finding.py)\<close>

datatype ViolationSeverity = CRITICAL | HIGH | MEDIUM | LOW

record Finding =
  rule_id :: pystr
  rule_subject :: pystr
  category :: pystr
  severity :: ViolationSeverity
  logic_schema :: pystr
  evaluation_result :: bool
  finding_evidence :: "(pystr \<times> pyval) list"
  finding_calculated_value :: "pyfloat option"
  finding_threshold_value :: "pyfloat option"
  description :: pystr
  recommendation :: pystr
  audit_procedures :: "pystr list"
  detected_at :: nat

record AuditReport =
  document_name :: pystr
  document_path :: pystr
  audit_timestamp :: nat
  total_rules_checked :: int
  total_violations :: int
  findings :: "Finding list"
  critical_count :: int
  high_count :: int
  medium_count :: int
  low_count :: int
  category_summary :: "(pystr \<times> int) list"
  execution_time_seconds :: real

text \<open>
  The constructor call \<open>AuditReport(document_name=..., document_path=..., total_rules_checked=...,
  execution_time_seconds=...)\<close>: every other field takes its declared default.
\<close>

definition new_AuditReport :: "pystr \<Rightarrow> pystr \<Rightarrow> nat \<Rightarrow> int \<Rightarrow> real \<Rightarrow> AuditReport" where
  "new_AuditReport name path now checked elapsed =
     \<lparr> document_name = name, document_path = path, audit_timestamp = now,
       total_rules_checked = checked, total_violations = 0, findings = [],
       critical_count = 0, high_count = 0, medium_count = 0, low_count = 0,
       category_summary = [], execution_time_seconds = elapsed \<rparr>"

text \<open>\<open>AuditReport.add_finding\<close>: the statements of the method, in their order.\<close>

definition add_finding :: "AuditReport \<Rightarrow> Finding \<Rightarrow> AuditReport" where
  "add_finding r f =
     (let r1 = r\<lparr> findings := findings r @ [f] \<rparr>;
          r2 = r1\<lparr> total_violations := total_violations r1 + 1 \<rparr>;
          r3 = (if severity f = CRITICAL then r2\<lparr> critical_count := critical_count r2 + 1 \<rparr>
                else if severity f = HIGH then r2\<lparr> high_count := high_count r2 + 1 \<rparr>
                else if severity f = MEDIUM then r2\<lparr> medium_count := medium_count r2 + 1 \<rparr>
                else r2\<lparr> low_count := low_count r2 + 1 \<rparr>)
      in r3\<lparr> category_summary :=
              dict_set (category_summary r3) (category f)
                ((case map_of (category_summary r3) (category f) of None \<Rightarrow> 0 | Some c \<Rightarrow> c)
                   + 1) \<rparr>)"

text \<open>\<open>AuditReporter.create_report\<close> (audit/reporter.py): a fresh report, then one
  \<open>add_finding\<close> per finding, in order.\<close>

definition create_report :: "pystr \<Rightarrow> pystr \<Rightarrow> nat \<Rightarrow> Finding list \<Rightarrow> int \<Rightarrow> AuditReport" where
  "create_report name path now fs checked =
     foldl add_finding (new_AuditReport name path now checked 0) fs"

section \<open>Rules and their loading (models/rule.py, rag/indexer.py)\<close>

text \<open>A JSON value, as \<open>json.loads\<close> returns it; an object is a \<open>dict\<close> with string keys.\<close>

datatype json =
    JNull
  | JBool bool
  | JInt int
  | JFloat pyfloat
  | JString pystr
  | JArray "json list"
  | JObject "(pystr \<times> json) list"

text \<open>The model \<open>Rule\<close>. Its fields carry the prefix \<open>r_\<close>, since a \<open>Finding\<close> has fields of the
  same names.\<close>

record Rule =
  r_rule_id :: pystr
  r_category :: pystr
  r_subject :: pystr
  r_trigger_keywords :: "pystr list"
  r_logic_schema :: pystr
  r_priority :: pystr
  r_description :: pystr
  r_source :: pystr
  r_linked_models :: "pystr list"
  r_audit_procedures :: "pystr list"

text \<open>The validation of one field: a required string; a string with a default; a list of
  strings with the empty list as default. \<open>None\<close> is a validation error.\<close>

definition required_str :: "(pystr \<times> json) list \<Rightarrow> pystr \<Rightarrow> pystr option" where
  "required_str d k = (case map_of d k of Some (JString s) \<Rightarrow> Some s | _ \<Rightarrow> None)"

definition optional_str :: "(pystr \<times> json) list \<Rightarrow> pystr \<Rightarrow> pystr option" where
  "optional_str d k =
     (case map_of d k of None \<Rightarrow> Some [] | Some (JString s) \<Rightarrow> Some s | Some _ \<Rightarrow> None)"

fun str_items :: "json list \<Rightarrow> pystr list option" where
  "str_items [] = Some []"
| "str_items (JString s # js) = (case str_items js of None \<Rightarrow> None | Some ss \<Rightarrow> Some (s # ss))"
| "str_items (_ # js) = None"

definition optional_str_list :: "(pystr \<times> json) list \<Rightarrow> pystr \<Rightarrow> pystr list option" where
  "optional_str_list d k =
     (case map_of d k of None \<Rightarrow> Some [] | Some (JArray js) \<Rightarrow> str_items js | Some _ \<Rightarrow> None)"

text \<open>\<open>Rule(**data)\<close> for a \<open>dict\<close>: the rule, or \<open>None\<close> for pydantic's \<open>ValidationError\<close> (which
  is a \<open>ValueError\<close>). Keys that are no fields are ignored.\<close>

definition Rule_init :: "(pystr \<times> json) list \<Rightarrow> Rule option" where
  "Rule_init d =
     (case (required_str d (u ''rule_id''), required_str d (u ''category''),
            required_str d (u ''subject''), optional_str_list d (u ''trigger_keywords''),
            required_str d (u ''logic_schema''), required_str d (u ''priority''),
            required_str d (u ''description''), optional_str d (u ''source''),
            optional_str_list d (u ''linked_models''),
            optional_str_list d (u ''audit_procedures'')) of
        (Some i, Some c, Some s, Some k, Some l, Some p, Some ds, Some so, Some lm, Some ap) \<Rightarrow>
          Some \<lparr> r_rule_id = i, r_category = c, r_subject = s, r_trigger_keywords = k,
                 r_logic_schema = l, r_priority = p, r_description = ds, r_source = so,
                 r_linked_models = lm, r_audit_procedures = ap \<rparr>
      | _ \<Rightarrow> None)"

text \<open>
  \<open>Rule.from_jsonl_line\<close>. \<open>json_loads\<close> is \<open>json.loads\<close>, with \<open>None\<close> for its
  \<open>JSONDecodeError\<close>. The \<open>except\<close> clause names \<open>JSONDecodeError\<close> and \<open>ValueError\<close>: it turns a
  text that is no JSON and an object that is no rule into \<open>None\<close>. For JSON that is no object,
  \<open>cls(**data)\<close> raises \<open>TypeError\<close> (the argument after \<open>**\<close> must be a mapping), which the
  clause does not name.
\<close>

definition from_jsonl_line :: "(pystr \<Rightarrow> json option) \<Rightarrow> pystr \<Rightarrow> exn + Rule option" where
  "from_jsonl_line json_loads line =
     (case json_loads (strip line) of
        None \<Rightarrow> Inr None
      | Some (JObject d) \<Rightarrow> Inr (Rule_init d)
      | Some _ \<Rightarrow> Inl TypeError)"

text \<open>\<open>RuleIndexer.load_rules_from_jsonl\<close>, on the lines of the file: the rules loaded, and the
  numbers of the lines a warning was logged for.\<close>

fun load_loop :: "(pystr \<Rightarrow> json option) \<Rightarrow> pystr list \<Rightarrow> nat \<Rightarrow> Rule list \<Rightarrow> nat list
    \<Rightarrow> exn + (Rule list \<times> nat list)" where
  "load_loop json_loads [] line_num rules warned = Inr (rules, warned)"
| "load_loop json_loads (line # rest) line_num rules warned =
     (if strip line = [] then load_loop json_loads rest (Suc line_num) rules warned
      else (case from_jsonl_line json_loads (strip line) of
              Inl e \<Rightarrow> Inl e
            | Inr None \<Rightarrow> load_loop json_loads rest (Suc line_num) rules (warned @ [line_num])
            | Inr (Some rule) \<Rightarrow>
                load_loop json_loads rest (Suc line_num) (rules @ [rule]) warned))"

definition load_rules_from_jsonl :: "(pystr \<Rightarrow> json option) \<Rightarrow> pystr list \<Rightarrow> exn + (Rule list \<times> nat list)" where
  "load_rules_from_jsonl json_loads lines = load_loop json_loads lines 1 [] []"

text \<open>\<open>json.loads\<close> on the texts of the example: \<open>[1, 2]\<close> is a JSON array, \<open>{not json\<close> is no
  JSON.\<close>

definition example_json_loads :: "pystr \<Rightarrow> json option" where
  "example_json_loads s = (if s = u ''[1, 2]'' then Some (JArray [JInt 1, JInt 2]) else None)"

section \<open>The library on the texts of the examples\<close>

text \<open>
  The examples below run \<open>evaluate\<close> on concrete texts. They need the value of the library
  functions on these texts only: \<open>example_parse\<close> gives the tree that \<open>ast.parse\<close> builds for
  each text listed and its \<open>SyntaxError\<close> for the two texts that are no expressions (\<open>1 +\<close> and
  \<open>exit() > 1 2\<close>), \<open>example_float_eval\<close> the result of \<open>float(eval(left_side))\<close> (none of the
  texts names a local of the method; \<open>eval\<close> of \<open>exit()\<close> raises \<open>SystemExit\<close>, which is no
  \<open>Exception\<close>), \<open>example_float_of_str\<close> the result of \<open>float(text)\<close>. The arithmetic of the
  examples meets only numbers that are floats, which rounding leaves as they are. The
  characters U+4E00 to U+9FFF are alphanumeric.
\<close>

definition example_parse :: "pystr \<Rightarrow> parse_result" where
  "example_parse s =
     (if s = u ''missing_field > 100'' then
        Parsed (Compare (Name (u ''missing_field'')) [(Gt, Constant (VInt 100))])
      else if s = u ''0.77 > 0.7'' then
        Parsed (Compare (Constant (VFloat (Fin 0.77))) [(Gt, Constant (VFloat (Fin 0.7)))])
      else if s = u ''10 / 0 > 5'' then
        Parsed (Compare (BinOp (Constant (VInt 10)) Div (Constant (VInt 0))) [(Gt, Constant (VInt 5))])
      else if s = u ''sum(1 for x in [1, -2, 3] if x < 0) > 2'' then
        Parsed (Compare
          (Call (Some (u ''sum''))
             [GeneratorExp (Constant (VInt 1))
                (ListN [Constant (VInt 1), UnaryOp USub (Constant (VInt 2)), Constant (VInt 3)])
                [Compare (Name (u ''x'')) [(Lt, Constant (VInt 0))]]])
          [(Gt, Constant (VInt 2))])
      else SyntaxError)"

definition example_float_eval :: "pydict \<Rightarrow> pystr \<Rightarrow> pystr \<Rightarrow> pystr \<Rightarrow> eval_result" where
  "example_float_eval ev expression op s =
     (if s = u ''0.77'' then EvalFloat (Fin 0.77)
      else if s = u ''sum(1 for x in [1, -2, 3] if x < 0)'' then EvalFloat (Fin 1)
      else if s = u ''exit()'' then EvalEscapes
      else EvalException)"

definition example_float_of_str :: "pystr \<Rightarrow> pyfloat option" where
  "example_float_of_str s =
     (if s = u ''0.7'' then Some (Fin 0.7)
      else if s = u ''100'' then Some (Fin 100)
      else if s = u ''5'' then Some (Fin 5)
      else if s = u ''2'' then Some (Fin 2)
      else if s = u ''0'' then Some (Fin 0)
      else if s = u ''1'' then Some (Fin 1)
      else None)"

definition example_lib :: pylib where
  "example_lib =
     \<lparr> ast_parse = example_parse,
       float_eval = example_float_eval,
       float_round = Fin,
       float_of_str = example_float_of_str,
       float_str = (\<lambda>x. if x = Fin 0.77 then u ''0.77'' else u ''1.0''),
       str_repr = (\<lambda>s. [39] @ s @ [39]),
       lib_binop = (\<lambda>op a b. Inl TypeError),
       lib_call = (\<lambda>f args. Inl TypeError),
       lib_is = (\<lambda>a b. False),
       uni_alnum = is_cjk,
       re_parse_template = (\<lambda>n s. Inl LibraryError) \<rparr>"

text \<open>The texts of the test \<open>test_missing_data_handling\<close>: a field name of six Chinese
  characters compared with 100, and a record that binds another name.\<close>

definition cjk_missing_expr :: pystr where
  "cjk_missing_expr = [19981, 23384, 22312, 30340, 23383, 27573] @ u '' > 100''"

definition cjk_other_data :: pydict where
  "cjk_other_data = [([20854, 20182, 23383, 27573], VInt 50)]"

text \<open>A field compared with a quoted Chinese text, and a record that binds the field to that
  text.\<close>

definition cjk_text_expr :: pystr where
  "cjk_text_expr = [20844, 21496, 31867, 22411] @ u '' == '' @ [34, 22269, 26377, 34]"

definition cjk_text_data :: pydict where
  "cjk_text_data = [([20844, 21496, 31867, 22411], VStr [22269, 26377])]"

section \<open>The audit workflow (graph/state.py, graph/nodes.py, graph/workflow.py)\<close>

text \<open>
  The state of the workflow, with the keys that the nodes read or that reach the report.
  (\<open>raw_text\<close>, \<open>extracted_keywords\<close>, \<open>parse_error\<close>, \<open>all_rules\<close> and the two rendered
  forms of the report are written and never read by the workflow.) \<open>document\<close> is the file
  name of the parsed document, \<open>financial_data\<close> the result of its \<open>to_eval_dict()\<close>.
\<close>

datatype stage_error = ParsingFailed exn | RetrievalFailed exn | ReportFailed exn

record AuditState =
  pdf_path :: pystr
  check_all_rules :: bool
  document :: "pystr option"
  financial_data :: "pydict option"
  retrieved_rules :: "Rule list"
  current_rule_index :: nat
  current_rule :: "Rule option"
  state_findings :: "Finding list"
  rules_checked :: int
  rules_with_violations :: int
  report :: "AuditReport option"
  should_continue :: bool
  error_message :: "stage_error option"
  start_time :: real
  end_time :: real

text \<open>
  What a run takes from outside the workflow: the outcome of the document parser, the outcome
  of the rule retrieval, whether the reporter can be set up, the readings of the clock, and
  the number of steps after which the graph library gives up (\<open>recursion_limit\<close>, 25 in
  langgraph when the caller configures none, as here).
\<close>

record run_inputs =
  in_pdf_path :: pystr
  in_check_all_rules :: bool
  parse_outcome :: "exn + (pystr \<times> pydict)"
  retrieve_outcome :: "exn + Rule list"
  reporter_outcome :: "exn option"
  clock_start :: real
  clock_end :: real
  clock_report :: nat
  clock_finding :: "nat \<Rightarrow> nat"
  recursion_limit :: nat

definition create_initial_state :: "run_inputs \<Rightarrow> AuditState" where
  "create_initial_state I =
     \<lparr> pdf_path = in_pdf_path I, check_all_rules = in_check_all_rules I, document = None,
       financial_data = None, retrieved_rules = [], current_rule_index = 0,
       current_rule = None, state_findings = [], rules_checked = 0,
       rules_with_violations = 0, report = None, should_continue = True,
       error_message = None, start_time = clock_start I, end_time = 0 \<rparr>"

text \<open>
  A node returns a \<open>dict\<close> of the keys it sets: a list of assignments. The graph merges it
  into the state key by key; \<open>findings\<close> is declared \<open>Annotated[list, add]\<close>, so its value is
  appended, and every other key is overwritten.
\<close>

datatype assignment =
    K_document "pystr option"
  | K_financial_data "pydict option"
  | K_retrieved_rules "Rule list"
  | K_current_rule_index nat
  | K_current_rule "Rule option"
  | K_findings "Finding list"
  | K_rules_checked int
  | K_rules_with_violations int
  | K_report "AuditReport option"
  | K_should_continue bool
  | K_error_message "stage_error option"
  | K_end_time real

fun merge_key :: "AuditState \<Rightarrow> assignment \<Rightarrow> AuditState" where
  "merge_key st (K_document v) = st\<lparr> document := v \<rparr>"
| "merge_key st (K_financial_data v) = st\<lparr> financial_data := v \<rparr>"
| "merge_key st (K_retrieved_rules v) = st\<lparr> retrieved_rules := v \<rparr>"
| "merge_key st (K_current_rule_index v) = st\<lparr> current_rule_index := v \<rparr>"
| "merge_key st (K_current_rule v) = st\<lparr> current_rule := v \<rparr>"
| "merge_key st (K_findings v) = st\<lparr> state_findings := state_findings st @ v \<rparr>"
| "merge_key st (K_rules_checked v) = st\<lparr> rules_checked := v \<rparr>"
| "merge_key st (K_rules_with_violations v) = st\<lparr> rules_with_violations := v \<rparr>"
| "merge_key st (K_report v) = st\<lparr> report := v \<rparr>"
| "merge_key st (K_should_continue v) = st\<lparr> should_continue := v \<rparr>"
| "merge_key st (K_error_message v) = st\<lparr> error_message := v \<rparr>"
| "merge_key st (K_end_time v) = st\<lparr> end_time := v \<rparr>"

definition merge_update :: "AuditState \<Rightarrow> assignment list \<Rightarrow> AuditState" where
  "merge_update st upd = foldl merge_key st upd"

subsection \<open>The nodes\<close>

definition parse_node :: "run_inputs \<Rightarrow> AuditState \<Rightarrow> assignment list" where
  "parse_node I st =
     (case parse_outcome I of
        Inr doc \<Rightarrow> [K_document (Some (fst doc)), K_financial_data (Some (snd doc))]
      | Inl e \<Rightarrow> [K_should_continue False, K_error_message (Some (ParsingFailed e))])"

definition retrieve_node :: "run_inputs \<Rightarrow> AuditState \<Rightarrow> assignment list" where
  "retrieve_node I st =
     (case retrieve_outcome I of
        Inr rules \<Rightarrow> [K_retrieved_rules rules, K_current_rule_index 0]
      | Inl e \<Rightarrow> [K_error_message (Some (RetrievalFailed e)), K_should_continue False])"

text \<open>\<open>severity_map.get(rule.priority, ViolationSeverity.MEDIUM)\<close>\<close>

definition severity_of_priority :: "pystr \<Rightarrow> ViolationSeverity" where
  "severity_of_priority p =
     (if p = u ''Critical'' then CRITICAL
      else if p = u ''High'' then HIGH
      else if p = u ''Medium'' then MEDIUM
      else if p = u ''Low'' then LOW
      else MEDIUM)"

definition make_finding :: "Rule \<Rightarrow> EvaluationOutcome \<Rightarrow> nat \<Rightarrow> Finding" where
  "make_finding rule result now =
     \<lparr> rule_id = r_rule_id rule, rule_subject = r_subject rule, category = r_category rule,
       severity = severity_of_priority (r_priority rule), logic_schema = r_logic_schema rule,
       evaluation_result = True, finding_evidence = evidence result,
       finding_calculated_value = calculated_value result,
       finding_threshold_value = threshold_value result, description = r_description rule,
       recommendation = [], audit_procedures = r_audit_procedures rule, detected_at = now \<rparr>"

text \<open>
  \<open>audit_node\<close>: one rule per call. The evaluator raises no \<open>Exception\<close>, so the \<open>except\<close>
  branch of the node (which sets the same index and count as the branch for an absent
  record) is not entered; what is no \<open>Exception\<close> passes through the node.
\<close>

definition audit_node :: "pylib \<Rightarrow> run_inputs \<Rightarrow> AuditState \<Rightarrow> assignment list completion" where
  "audit_node L I st =
     (let rules = retrieved_rules st; current_index = current_rule_index st in
      if current_index \<ge> length rules then Returns [K_should_continue False]
      else
        (let rule = rules ! current_index in
         case financial_data st of
           None \<Rightarrow> Returns [K_current_rule_index (current_index + 1),
                             K_rules_checked (rules_checked st + 1)]
         | Some eval_dict \<Rightarrow>
            (case evaluate L (r_logic_schema rule) eval_dict of
               Escapes \<Rightarrow> Escapes
             | Returns result \<Rightarrow>
                Returns [K_current_rule_index (current_index + 1),
                         K_current_rule (Some rule),
                         K_rules_checked (rules_checked st + 1),
                         K_rules_with_violations
                           (if violation result then rules_with_violations st + 1
                            else rules_with_violations st),
                         K_findings
                           (if violation result
                            then [make_finding rule result (clock_finding I current_index)]
                            else []),
                         K_should_continue (current_index + 1 < length rules)])))"

definition report_node :: "run_inputs \<Rightarrow> AuditState \<Rightarrow> assignment list" where
  "report_node I st =
     (case reporter_outcome I of
        Some e \<Rightarrow> [K_error_message (Some (ReportFailed e))]
      | None \<Rightarrow>
         [K_report (Some ((create_report
                             (case document st of None \<Rightarrow> u ''Unknown'' | Some name \<Rightarrow> name)
                             (pdf_path st) (clock_report I) (state_findings st) (rules_checked st))
                          \<lparr> execution_time_seconds := clock_end I - start_time st \<rparr>)),
          K_end_time (clock_end I)])"

datatype node_name = Parse | Retrieve | Audit | Report

definition should_continue_audit :: "AuditState \<Rightarrow> node_name" where
  "should_continue_audit st =
     (if error_message st \<noteq> None then Report
      else if should_continue st then Audit
      else Report)"

subsection \<open>The graph and its two ways of running\<close>

text \<open>
  The compiled graph runs \<open>parse\<close>, \<open>retrieve\<close>, then \<open>audit\<close> for as long as the conditional
  edge says \<open>audit\<close>, then \<open>report\<close>. One execution gives the chunks that \<open>stream\<close> yields,
  each the name of a node with the update it returned, and the state that \<open>invoke\<close> returns.
  The library counts the steps and raises \<open>GraphRecursionError\<close>, in \<open>invoke\<close> and in
  \<open>stream\<close> alike, when the graph has not ended within the limit. \<open>audit_loop\<close> takes the
  number of steps that are left.
\<close>

type_synonym chunk = "node_name \<times> assignment list"

datatype graph_error = GraphRecursionError

fun audit_loop :: "pylib \<Rightarrow> run_inputs \<Rightarrow> nat \<Rightarrow> AuditState
    \<Rightarrow> (graph_error + chunk list \<times> AuditState) completion" where
  "audit_loop L I 0 st = Returns (Inl GraphRecursionError)"
| "audit_loop L I (Suc n) st =
     (case audit_node L I st of
        Escapes \<Rightarrow> Escapes
      | Returns upd \<Rightarrow>
         if should_continue_audit (merge_update st upd) = Audit then
           (case audit_loop L I n (merge_update st upd) of
              Escapes \<Rightarrow> Escapes
            | Returns looped \<Rightarrow>
               (case looped of
                  Inl e \<Rightarrow> Returns (Inl e)
                | Inr rest \<Rightarrow> Returns (Inr ((Audit, upd) # fst rest, snd rest))))
         else Returns (Inr ([(Audit, upd)], merge_update st upd)))"

definition execute :: "pylib \<Rightarrow> run_inputs \<Rightarrow> (graph_error + chunk list \<times> AuditState) completion" where
  "execute L I =
     (let s0 = create_initial_state I;
          u1 = parse_node I s0; s1 = merge_update s0 u1;
          u2 = retrieve_node I s1; s2 = merge_update s1 u2
      in case audit_loop L I (recursion_limit I - 2) s2 of
           Escapes \<Rightarrow> Escapes
         | Returns looped \<Rightarrow>
            (case looped of
               Inl e \<Rightarrow> Returns (Inl e)
             | Inr audited \<Rightarrow>
                if recursion_limit I < 2 + length (fst audited) + 1
                then Returns (Inl GraphRecursionError)
                else
                  (let u4 = report_node I (snd audited)
                   in Returns (Inr ([(Parse, u1), (Retrieve, u2)] @ fst audited @ [(Report, u4)],
                                    merge_update (snd audited) u4)))))"

text \<open>
  \<open>AuditWorkflowRunner.run\<close>. Without \<open>stream\<close> it returns the state that \<open>invoke\<close> returns;
  with \<open>stream\<close> it returns the last chunk that was yielded (\<open>None\<close> if there was none). An
  exception of the graph passes through it.
\<close>

datatype run_result = FinalState AuditState | LastChunk "chunk option"

definition run :: "pylib \<Rightarrow> run_inputs \<Rightarrow> bool \<Rightarrow> (graph_error + run_result) completion" where
  "run L I stream =
     (case execute L I of
        Escapes \<Rightarrow> Escapes
      | Returns executed \<Rightarrow>
         (case executed of
            Inl e \<Rightarrow> Returns (Inl e)
          | Inr ex \<Rightarrow>
             if stream
             then Returns (Inr (LastChunk (if fst ex = [] then None else Some (last (fst ex)))))
             else Returns (Inr (FinalState (snd ex)))))"





text \<open>The key \<open>report\<close> of an update.\<close>

fun report_in :: "assignment list \<Rightarrow> AuditReport option" where
  "report_in [] = None"
| "report_in (K_report r # upd) = (case report_in upd of None \<Rightarrow> r | Some r' \<Rightarrow> Some r')"
| "report_in (_ # upd) = report_in upd"





section \<open>Properties of the report accumulator\<close>

definition severity_sum :: "AuditReport \<Rightarrow> int" where
  "severity_sum r = critical_count r + high_count r + medium_count r + low_count r"

lemma add_finding_findings: "findings (add_finding r f) = findings r @ [f]"
  by (simp add: add_finding_def Let_def)

lemma add_finding_total: "total_violations (add_finding r f) = total_violations r + 1"
  by (simp add: add_finding_def Let_def)

lemma add_finding_severity_sum: "severity_sum (add_finding r f) = severity_sum r + 1"
  by (simp add: add_finding_def Let_def severity_sum_def)

lemma foldl_add_finding_findings:
  "findings (foldl add_finding r fs) = findings r @ fs"
  by (induction fs arbitrary: r) (simp_all add: add_finding_findings)

lemma foldl_add_finding_total:
  "total_violations (foldl add_finding r fs) = total_violations r + int (length fs)"
  by (induction fs arbitrary: r) (simp_all add: add_finding_total)

lemma foldl_add_finding_severity_sum:
  "severity_sum (foldl add_finding r fs) = severity_sum r + int (length fs)"
  by (induction fs arbitrary: r) (simp_all add: add_finding_severity_sum)

text \<open>
  Claim C8. After any sequence \<open>fs\<close> of \<open>add_finding\<close> calls on a freshly created report,
  \<open>total_violations\<close> is the length of the findings list and the four severity counts sum to
  \<open>total_violations\<close>; and a single \<open>add_finding\<close>, on any report, appends the finding,
  adds one to \<open>total_violations\<close> and adds one to the sum of the severity counts, all in the
  one state it returns.
\<close>

theorem add_finding_accumulator_invariant:
  "total_violations (foldl add_finding (new_AuditReport name path now checked elapsed) fs)
     = int (length (findings (foldl add_finding (new_AuditReport name path now checked elapsed) fs)))
   \<and> critical_count (foldl add_finding (new_AuditReport name path now checked elapsed) fs)
     + high_count (foldl add_finding (new_AuditReport name path now checked elapsed) fs)
     + medium_count (foldl add_finding (new_AuditReport name path now checked elapsed) fs)
     + low_count (foldl add_finding (new_AuditReport name path now checked elapsed) fs)
     = total_violations (foldl add_finding (new_AuditReport name path now checked elapsed) fs)
   \<and> findings (foldl add_finding (new_AuditReport name path now checked elapsed) fs) = fs
   \<and> findings (add_finding r f) = findings r @ [f]
   \<and> total_violations (add_finding r f) = total_violations r + 1
   \<and> severity_sum (add_finding r f) = severity_sum r + 1"
proof -
  let ?r0 = "new_AuditReport name path now checked elapsed"
  have f0: "findings ?r0 = []" and t0: "total_violations ?r0 = 0"
    and s0: "severity_sum ?r0 = 0"
    by (simp_all add: new_AuditReport_def severity_sum_def)
  have a: "findings (foldl add_finding ?r0 fs) = fs"
    by (simp add: foldl_add_finding_findings f0)
  have b: "total_violations (foldl add_finding ?r0 fs) = int (length fs)"
    by (simp add: foldl_add_finding_total t0)
  have c: "severity_sum (foldl add_finding ?r0 fs) = int (length fs)"
    by (simp add: foldl_add_finding_severity_sum s0)
  from c have c': "critical_count (foldl add_finding ?r0 fs) + high_count (foldl add_finding ?r0 fs)
      + medium_count (foldl add_finding ?r0 fs) + low_count (foldl add_finding ?r0 fs)
      = int (length fs)"
    by (simp add: severity_sum_def)
  from a b c' show ?thesis
    by (simp add: add_finding_findings add_finding_total add_finding_severity_sum)
qed

section \<open>Properties of the evaluator\<close>

lemma runs_of_nonempty:
  "runs_of P cur s \<noteq> [] \<longleftrightarrow> cur \<noteq> [] \<or> (\<exists>c\<in>set s. P c)"
  by (induction s arbitrary: cur) auto

lemma quote_parity:
  "foldl (\<lambda>b c. if c = 34 \<or> c = 39 then \<not> b else b) b0 s
     = (b0 \<noteq> odd (length (filter (\<lambda>c. c = 34 \<or> c = (39::int)) s)))"
  by (induction s arbitrary: b0) auto

lemma has_missing_data_iff:
  "has_missing_data s \<longleftrightarrow>
     (\<exists>c\<in>set s. is_cjk c) \<and> even (length (filter (\<lambda>c. c = 34 \<or> c = 39) s))"
  by (simp add: has_missing_data_def Let_def runs_of_nonempty quote_parity)

lemma example_ascii_missing:
  "evaluate example_lib (u ''missing_field > 100'') [(u ''other'', VInt 50)]
   = Returns (error_outcome [(u ''other'', VInt 50)] (UnknownName (u ''missing_field'')))"
  by code_simp

lemma example_cjk_missing:
  "evaluate example_lib cjk_missing_expr cjk_other_data
   = Returns \<lparr> violation = False, evidence = cjk_other_data, calculated_value = None,
        threshold_value = None, error = Some InsufficientData,
        missing_fields = Some [[19981, 23384, 22312, 30340, 23383, 27573]] \<rparr>"
  by code_simp

lemma example_escape: "evaluate example_lib (u ''exit() > 1 2'') [] = Escapes"
  by code_simp

lemma example_evidence:
  "evaluate example_lib (u ''x > 0.7'') [(u ''x'', VFloat (Fin 0.77))]
   = Returns \<lparr> violation = True, evidence = [(u ''x'', VFloat (Fin 0.77))],
        calculated_value = Some (Fin 0.77), threshold_value = Some (Fin 0.7), error = None,
        missing_fields = None \<rparr>"
  by code_simp

lemma example_div_zero:
  "evaluate example_lib (u ''a / b > 5'') [(u ''a'', VInt 10), (u ''b'', VInt 0)]
   = Returns \<lparr> violation = True, evidence = [(u ''a'', VInt 10), (u ''b'', VInt 0)],
        calculated_value = None, threshold_value = Some (Fin 5), error = None,
        missing_fields = None \<rparr>"
  by code_simp

lemma count_le_rewrite:
  "preprocess_schema example_lib (u ''COUNT(xs <= 0) > 2'')
     = Inr (u ''sum(1 for x in xs if x < = 0) > 2'')"
  by code_simp

lemma py_sum_ones:
  "py_sum L (VInt n) (replicate k (VInt 1)) = Inr (VInt (n + int k))"
  by (induction k arbitrary: n) (simp_all add: apply_binop_def arith_int_def)

lemma eval_each_const: "eval_each L (Constant v) items = Inr (replicate (length items) v)"
  by (induction items) simp_all

lemma generator_filter_ignored:
  "eval_node L (Call (Some (u ''sum''))
       [GeneratorExp (Constant (VInt 1)) (Constant (VList xs)) ifs]) = Inr (VInt (int (length xs)))"
  by (simp add: safe_function_names_def call_safe_function_def eval_each_const py_sum_ones u_def)

text \<open>
  Claim C1 as stated fails: \<open>1 +\<close> cannot be parsed, and the outcome of \<open>evaluate\<close> has no
  error.
\<close>

theorem unparsable_expression_counterexample:
  "ast_parse example_lib (u ''1 +'') = SyntaxError
   \<and> evaluate example_lib (u ''1 +'') [] = Returns \<lparr> violation = False, evidence = [],
        calculated_value = None, threshold_value = None, error = None,
        missing_fields = None \<rparr>"
  by code_simp

text \<open>
  Claim C1, as amended. Take an expression and a record, and suppose that the calls
  \<open>float(eval(left_side))\<close> that \<open>_extract_calculated_value\<close> makes for them (on the bound text,
  when the evaluation has come that far) return or raise an \<open>Exception\<close>. Then \<open>evaluate\<close>
  returns an outcome and raises nothing. An exception raised by the normalisation, by the
  binding, by the parser (other than \<open>SyntaxError\<close>) or by the walk over the tree (unsupported
  construct, unknown name, type error) gives the outcome of the \<open>except\<close> branch: \<open>violation\<close>
  false and \<open>error\<close> set to that exception. A text that the parser rejects with
  \<open>SyntaxError\<close> is no error: the fall-back \<open>_simple_eval\<close> decides \<open>violation\<close>, and \<open>error\<close> is
  \<open>None\<close>.
\<close>

theorem evaluate_returns_and_reports_errors:
  assumes "\<forall>p ev s r. preprocess_schema L e = Inr p \<longrightarrow> substitute_values L p d = (ev, Inr s)
            \<longrightarrow> \<not> has_missing_data s \<longrightarrow> safe_eval L s = Inr r
            \<longrightarrow> extract_calculated_value L ev s \<noteq> Escapes"
  shows "(\<exists>out. evaluate L e d = Returns out)
    \<and> (\<forall>x. preprocess_schema L e = Inl x \<longrightarrow> evaluate L e d = Returns (error_outcome [] x))
    \<and> (\<forall>p ev x. preprocess_schema L e = Inr p \<longrightarrow> substitute_values L p d = (ev, Inl x)
          \<longrightarrow> evaluate L e d = Returns (error_outcome ev x))
    \<and> (\<forall>p ev s x. preprocess_schema L e = Inr p \<longrightarrow> substitute_values L p d = (ev, Inr s)
          \<longrightarrow> \<not> has_missing_data s \<longrightarrow> safe_eval L s = Inl x
          \<longrightarrow> evaluate L e d = Returns (error_outcome ev x))
    \<and> (\<forall>p ev s. preprocess_schema L e = Inr p \<longrightarrow> substitute_values L p d = (ev, Inr s)
          \<longrightarrow> \<not> has_missing_data s \<longrightarrow> ast_parse L s = SyntaxError
          \<longrightarrow> (\<exists>out. evaluate L e d = Returns out \<and> error out = None
                    \<and> violation out = simple_eval L s))"
proof -
  have cl: "\<exists>cv. extract_calculated_value L ev s = Returns cv"
    if "preprocess_schema L e = Inr p" "substitute_values L p d = (ev, Inr s)"
      "\<not> has_missing_data s" "safe_eval L s = Inr r" for p ev s r
    using assms that by (cases "extract_calculated_value L ev s") auto
  have a: "\<exists>out. evaluate L e d = Returns out"
  proof (cases "preprocess_schema L e")
    case (Inl x)
    then show ?thesis by (simp add: evaluate_def)
  next
    case p: (Inr p)
    obtain ev r where sv: "substitute_values L p d = (ev, r)"
      by (cases "substitute_values L p d")
    show ?thesis
    proof (cases r)
      case (Inl x)
      with p sv show ?thesis by (simp add: evaluate_def)
    next
      case s: (Inr s)
      show ?thesis
      proof (cases "has_missing_data s")
        case True
        with p sv s show ?thesis by (simp add: evaluate_def)
      next
        case False
        show ?thesis
        proof (cases "safe_eval L s")
          case (Inl x)
          with p sv s False show ?thesis by (simp add: evaluate_def)
        next
          case (Inr res)
          from cl [OF p sv [unfolded s] False Inr]
          obtain cv where "extract_calculated_value L ev s = Returns cv" by blast
          with p sv s False Inr show ?thesis by (simp add: evaluate_def)
        qed
      qed
    qed
  qed
  have b: "preprocess_schema L e = Inl x \<Longrightarrow> evaluate L e d = Returns (error_outcome [] x)" for x
    by (simp add: evaluate_def)
  have c: "preprocess_schema L e = Inr p \<Longrightarrow> substitute_values L p d = (ev, Inl x)
          \<Longrightarrow> evaluate L e d = Returns (error_outcome ev x)" for p ev x
    by (simp add: evaluate_def)
  have d: "preprocess_schema L e = Inr p \<Longrightarrow> substitute_values L p d = (ev, Inr s)
          \<Longrightarrow> \<not> has_missing_data s \<Longrightarrow> safe_eval L s = Inl x
          \<Longrightarrow> evaluate L e d = Returns (error_outcome ev x)" for p ev s x
    by (simp add: evaluate_def)
  have e: "preprocess_schema L e = Inr p \<Longrightarrow> substitute_values L p d = (ev, Inr s)
          \<Longrightarrow> \<not> has_missing_data s \<Longrightarrow> ast_parse L s = SyntaxError
          \<Longrightarrow> (\<exists>out. evaluate L e d = Returns out \<and> error out = None
                    \<and> violation out = simple_eval L s)" for p ev s
  proof -
    assume h: "preprocess_schema L e = Inr p" "substitute_values L p d = (ev, Inr s)"
      "\<not> has_missing_data s" "ast_parse L s = SyntaxError"
    then have se: "safe_eval L s = Inr (VBool (simple_eval L s))"
      by (simp add: safe_eval_def)
    from cl [OF h(1) h(2) h(3) se]
    obtain cv where "extract_calculated_value L ev s = Returns cv" by blast
    with h se show ?thesis by (simp add: evaluate_def)
  qed
  from a b c d e show ?thesis by blast
qed

theorem evaluate_returns_and_reports_errors_witness:
  "extract_calculated_value example_lib [(u ''x'', VFloat (Fin 0.77))] (u ''0.77 > 0.7'')
     = Returns (Some (Fin 0.77))
   \<and> (\<exists>out. evaluate example_lib (u ''x > 0.7'') [(u ''x'', VFloat (Fin 0.77))] = Returns out)
   \<and> extract_calculated_value example_lib [] (u ''1 +'') = Returns None
   \<and> (\<exists>out. evaluate example_lib (u ''1 +'') [] = Returns out \<and> error out = None
          \<and> violation out = simple_eval example_lib (u ''1 +''))"
proof -
  have a: "preprocess_schema example_lib (u ''1 +'') = Inr (u ''1 +'')"
    by code_simp
  have b: "substitute_values example_lib (u ''1 +'') [] = ([], Inr (u ''1 +''))"
    by code_simp
  have c: "\<not> has_missing_data (u ''1 +'')"
    by code_simp
  have d: "ast_parse example_lib (u ''1 +'') = SyntaxError"
    by code_simp
  have x: "extract_calculated_value example_lib [] (u ''1 +'') = Returns None"
    by code_simp
  have h: "\<forall>p ev s r. preprocess_schema example_lib (u ''1 +'') = Inr p
            \<longrightarrow> substitute_values example_lib p [] = (ev, Inr s)
            \<longrightarrow> \<not> has_missing_data s \<longrightarrow> safe_eval example_lib s = Inr r
            \<longrightarrow> extract_calculated_value example_lib ev s \<noteq> Escapes"
    using a b x by auto
  have a': "preprocess_schema example_lib (u ''x > 0.7'') = Inr (u ''x > 0.7'')"
    by code_simp
  have b': "substitute_values example_lib (u ''x > 0.7'') [(u ''x'', VFloat (Fin 0.77))]
      = ([(u ''x'', VFloat (Fin 0.77))], Inr (u ''0.77 > 0.7''))"
    by code_simp
  have x': "extract_calculated_value example_lib [(u ''x'', VFloat (Fin 0.77))] (u ''0.77 > 0.7'')
      = Returns (Some (Fin 0.77))"
    by code_simp
  have h': "\<forall>p ev s r. preprocess_schema example_lib (u ''x > 0.7'') = Inr p
            \<longrightarrow> substitute_values example_lib p [(u ''x'', VFloat (Fin 0.77))] = (ev, Inr s)
            \<longrightarrow> \<not> has_missing_data s \<longrightarrow> safe_eval example_lib s = Inr r
            \<longrightarrow> extract_calculated_value example_lib ev s \<noteq> Escapes"
    using a' b' x' by auto
  from evaluate_returns_and_reports_errors [OF h] a b c d
  have "\<exists>out. evaluate example_lib (u ''1 +'') [] = Returns out \<and> error out = None
          \<and> violation out = simple_eval example_lib (u ''1 +'')"
    by blast
  moreover from evaluate_returns_and_reports_errors [OF h']
  have "\<exists>out. evaluate example_lib (u ''x > 0.7'') [(u ''x'', VFloat (Fin 0.77))] = Returns out"
    by blast
  ultimately show ?thesis using x x' by blast
qed

text \<open>
  Claim C2. Whenever \<open>evaluate\<close> returns an outcome whose \<open>error\<close> is set, its \<open>violation\<close> is
  false: no return of \<open>evaluate\<close> has both.
\<close>

theorem error_implies_not_violated:
  "evaluate L e d = Returns out \<Longrightarrow> error out \<noteq> None \<Longrightarrow> \<not> violation out"
  by (auto simp: evaluate_def error_outcome_def
      split: sum.splits prod.splits if_splits completion.splits)

theorem error_implies_not_violated_witness:
  "evaluate example_lib (u ''missing_field > 100'') [(u ''other'', VInt 50)]
     = Returns (error_outcome [(u ''other'', VInt 50)] (UnknownName (u ''missing_field'')))
   \<and> error (error_outcome [(u ''other'', VInt 50)] (UnknownName (u ''missing_field''))) \<noteq> None
   \<and> \<not> violation (error_outcome [(u ''other'', VInt 50)] (UnknownName (u ''missing_field'')))"
proof -
  have e: "error (error_outcome [(u ''other'', VInt 50)] (UnknownName (u ''missing_field''))) \<noteq> None"
    by (simp add: error_outcome_def)
  from error_implies_not_violated [OF example_ascii_missing e] example_ascii_missing e
  show ?thesis by simp
qed

text \<open>
  Claim C3 fails on the code. \<open>COUNT(xs < 0) > 2\<close> on \<open>xs = [1, -2, 3]\<close>: one element is
  negative, so the count is 1 and the rule is not violated; \<open>evaluate\<close> counts all three
  elements and reports a violation (\<open>generator_filter_ignored\<close>: the \<open>ifs\<close> of the generator
  are never evaluated).
\<close>

theorem count_with_predicate_counts_every_element:
  "evaluate example_lib (u ''COUNT(xs < 0) > 2'') [(u ''xs'', VList [VInt 1, VInt (-2), VInt 3])]
   = Returns \<lparr> violation = True, evidence = [(u ''xs'', VList [VInt 1, VInt (-2), VInt 3])],
        calculated_value = Some (Fin 1), threshold_value = Some (Fin 0), error = None,
        missing_fields = None \<rparr>"
  by code_simp

text \<open>
  Claim C4 as stated fails: in \<open>missing_field > 100\<close> on the record \<open>{other: 50}\<close> the field
  \<open>missing_field\<close> is absent, and the outcome has no \<open>missing_fields\<close> (the unbound name is
  reported as the error "Unknown name" of the \<open>except\<close> branch).
\<close>

theorem ascii_missing_field_counterexample:
  "evaluate example_lib (u ''missing_field > 100'') [(u ''other'', VInt 50)]
     = Returns \<lparr> violation = False, evidence = [(u ''other'', VInt 50)], calculated_value = None,
         threshold_value = None, error = Some (ErrorOf (UnknownName (u ''missing_field''))),
         missing_fields = None \<rparr>"
  using example_ascii_missing by (simp add: error_outcome_def)

text \<open>
  Claim C4, as amended. Take an expression and a record such that the text after binding
  holds no quote character. When that text still holds a character in U+4E00 to U+9FFF,
  and a maximal run \<open>f\<close> of such characters and underscores in the normalised expression is
  not bound in the record (absent, or bound to \<open>None\<close>), \<open>evaluate\<close> returns an outcome with
  \<open>violation\<close> false, the error "Insufficient data for evaluation", and \<open>f\<close> among its
  \<open>missing_fields\<close>.
\<close>

theorem missing_cjk_field_reported:
  assumes "preprocess_schema L e = Inr p" and "substitute_values L p d = (ev, Inr s)"
    and "34 \<notin> set s \<and> 39 \<notin> set s"
    and "\<exists>c\<in>set s. is_cjk c"
    and "f \<in> set (runs_of (\<lambda>c. is_cjk c \<or> c = 95) [] p)"
    and "map_of d f = None \<or> map_of d f = Some VNone"
  shows "\<exists>out m. evaluate L e d = Returns out \<and> \<not> violation out
           \<and> error out = Some InsufficientData \<and> missing_fields out = Some m \<and> f \<in> set m"
proof -
  from assms(3) have "filter (\<lambda>c. c = 34 \<or> c = 39) s = []"
    by (auto simp: filter_empty_conv)
  with assms(4) have "has_missing_data s" by (simp add: has_missing_data_iff)
  with assms(1,2) have "evaluate L e d = Returns \<lparr> violation = False, evidence = ev,
      calculated_value = None, threshold_value = None, error = Some InsufficientData,
      missing_fields = Some (get_missing_fields p d) \<rparr>"
    by (simp add: evaluate_def)
  moreover from assms(5,6) have "f \<in> set (get_missing_fields p d)"
    by (auto simp: get_missing_fields_def)
  ultimately show ?thesis by simp
qed

theorem missing_cjk_field_reported_witness:
  "\<exists>out m. evaluate example_lib cjk_missing_expr cjk_other_data = Returns out \<and> \<not> violation out
      \<and> error out = Some InsufficientData \<and> missing_fields out = Some m
      \<and> [19981, 23384, 22312, 30340, 23383, 27573] \<in> set m"
proof -
  have a: "preprocess_schema example_lib cjk_missing_expr = Inr cjk_missing_expr"
    by code_simp
  have b: "substitute_values example_lib cjk_missing_expr cjk_other_data
      = (cjk_other_data, Inr cjk_missing_expr)"
    by code_simp
  have q: "34 \<notin> set cjk_missing_expr \<and> 39 \<notin> set cjk_missing_expr"
    by code_simp
  have c: "\<exists>c\<in>set cjk_missing_expr. is_cjk c"
    by code_simp
  have e: "[19981, 23384, 22312, 30340, 23383, 27573]
      \<in> set (runs_of (\<lambda>c. is_cjk c \<or> c = 95) [] cjk_missing_expr)"
    by code_simp
  have f: "map_of cjk_other_data [19981, 23384, 22312, 30340, 23383, 27573] = None
      \<or> map_of cjk_other_data [19981, 23384, 22312, 30340, 23383, 27573] = Some VNone"
    by code_simp
  from missing_cjk_field_reported [OF a b q c e f] show ?thesis .
qed

text \<open>
  Claim C5 fails on the code. The expression compares a field with a quoted Chinese text;
  the field is bound to a string; the outcome has the error "Insufficient data for
  evaluation", because the Chinese characters inside the quotes are taken for unbound
  field names.
\<close>

theorem quoted_cjk_text_reads_as_missing:
  "evaluate example_lib cjk_text_expr cjk_text_data
   = Returns \<lparr> violation = False, evidence = cjk_text_data, calculated_value = None,
        threshold_value = None, error = Some InsufficientData,
        missing_fields = Some [[22269, 26377]] \<rparr>"
  by code_simp

text \<open>
  Claim C6 fails on the code. \<open>x > 0.7\<close> on the record \<open>{x: 0.77, y: 1}\<close>: \<open>y\<close> does not occur
  in the expression, and the evidence holds it (\<open>example_evidence\<close> is the example of the
  claim, which holds).
\<close>

theorem evidence_holds_unused_field:
  "evaluate example_lib (u ''x > 0.7'') [(u ''x'', VFloat (Fin 0.77)), (u ''y'', VInt 1)]
   = Returns \<lparr> violation = True,
        evidence = [(u ''x'', VFloat (Fin 0.77)), (u ''y'', VInt 1)],
        calculated_value = Some (Fin 0.77), threshold_value = Some (Fin 0.7), error = None,
        missing_fields = None \<rparr>"
  by code_simp

text \<open>
  Claim C7 as stated fails for a comparison that encloses the division elsewhere than as its
  left operand: in \<open>1 - 10 / 0 > 5\<close> the left operand is minus infinity and the comparison is
  false, and in \<open>5 < 10 / 0\<close> the infinity is the right operand and the comparison is true,
  while with plus infinity as left operand the first would be true and the second false.
\<close>

theorem enclosing_comparison_counterexample:
  "eval_node example_lib
      (Compare (BinOp (Constant (VInt 1)) Sub (BinOp (Constant (VInt 10)) Div (Constant (VInt 0))))
         [(Gt, Constant (VInt 5))]) = Inr (VBool False)
   \<and> eval_compare example_lib (VFloat PInf) [(Gt, Constant (VInt 5))] = Inr (VBool True)
   \<and> eval_node example_lib
      (Compare (Constant (VInt 5)) [(Lt, BinOp (Constant (VInt 10)) Div (Constant (VInt 0)))])
       = Inr (VBool True)
   \<and> eval_compare example_lib (VFloat PInf)
        [(Lt, BinOp (Constant (VInt 10)) Div (Constant (VInt 0)))] = Inr (VBool False)"
  by code_simp

text \<open>
  Claim C7, as amended. When the right operand of a division evaluates to a value equal to
  zero (and the left operand evaluates at all), the division evaluates to positive
  infinity and raises nothing; and a comparison that has the division as its left-hand
  operand is decided with positive infinity on the left-hand side: against a finite number,
  \<open>>\<close>, \<open>>=\<close> and \<open>!=\<close> hold, and \<open><\<close>, \<open><=\<close> and \<open>==\<close> do not.
\<close>

theorem division_by_zero_yields_infinity:
  assumes "eval_node L l = Inr lv" and "eval_node L r = Inr rv" and "py_eq rv (VInt 0)"
    and "eval_node L c = Inr cv" and "num_of cv = Some (Fin y)"
    and "op = Gt \<or> op = GtE \<or> op = Lt \<or> op = LtE \<or> op = Eq \<or> op = NotEq"
  shows "eval_node L (BinOp l Div r) = Inr (VFloat PInf)
       \<and> eval_node L (Compare (BinOp l Div r) [(op, c)])
           = Inr (VBool (op = Gt \<or> op = GtE \<or> op = NotEq))"
proof -
  from assms(1-3) have d: "eval_node L (BinOp l Div r) = Inr (VFloat PInf)"
    by (simp add: safe_binops_def)
  from assms(5) have ord: "py_order o' (VFloat PInf) cv
      = Inr (order_of o' (f_lt PInf (Fin y)) (f_eq PInf (Fin y)) (f_lt (Fin y) PInf))" for o'
    by (cases cv) (auto split: if_splits)
  from assms(5) have eq: "\<not> py_eq (VFloat PInf) cv"
    by (cases cv) (auto simp: f_eq_def split: if_splits)
  from assms(6) have "compare_op L op (VFloat PInf) cv
      = Inr (op = Gt \<or> op = GtE \<or> op = NotEq)"
    using ord eq by (auto simp: compare_op_def order_of_def f_eq_def)
  with d assms(4) show ?thesis by simp
qed

theorem division_by_zero_yields_infinity_witness:
  "eval_node example_lib (BinOp (Constant (VInt 10)) Div (Constant (VInt 0))) = Inr (VFloat PInf)
   \<and> eval_node example_lib
        (Compare (BinOp (Constant (VInt 10)) Div (Constant (VInt 0))) [(Lt, Constant (VInt 5))])
      = Inr (VBool False)"
proof -
  have a: "eval_node example_lib (Constant (VInt 10)) = Inr (VInt 10)" by simp
  have b: "eval_node example_lib (Constant (VInt 0)) = Inr (VInt 0)" by simp
  have c: "py_eq (VInt 0) (VInt 0)" by (simp add: f_eq_def)
  have d: "eval_node example_lib (Constant (VInt 5)) = Inr (VInt 5)" by simp
  have e: "num_of (VInt 5) = Some (Fin 5)" by simp
  have f: "Lt = Gt \<or> Lt = GtE \<or> Lt = Lt \<or> Lt = LtE \<or> Lt = Eq \<or> Lt = NotEq" by simp
  have g: "(Lt = Gt \<or> Lt = GtE \<or> Lt = NotEq) = False" by simp
  from division_by_zero_yields_infinity [OF a b c d e f]
  show ?thesis unfolding g .
qed

section \<open>Properties of the rule loader\<close>

lemma load_loop_skips_malformed:
  assumes "\<forall>line \<in> set lines. \<forall>j. json_loads (strip (strip line)) = Some j \<longrightarrow> (\<exists>d. j = JObject d)"
  shows "\<exists>rules' warned'. load_loop json_loads lines n rules warned = Inr (rules', warned')"
  using assms
proof (induction lines arbitrary: n rules warned)
  case Nil
  then show ?case by simp
next
  case (Cons line rest)
  then show ?case
    by (auto simp: from_jsonl_line_def split: option.splits json.splits)
qed

lemma load_skips_undecodable_line:
  "load_rules_from_jsonl example_json_loads [u ''{not json''] = Inr ([], [1])"
  by code_simp

text \<open>
  Claim C9 fails on the code. A line that holds the JSON array \<open>[1, 2]\<close> does not
  deserialize into a rule, and loading does not skip it: it ends with the \<open>TypeError\<close>.
\<close>

theorem load_raises_on_json_that_is_no_object:
  "load_rules_from_jsonl example_json_loads [u ''[1, 2]''] = Inl TypeError"
  by code_simp

section \<open>Properties of the workflow\<close>

lemma audit_node_keeps_report:
  "audit_node L I st = Returns upd \<Longrightarrow> report (merge_update st upd) = report st"
  by (auto simp: audit_node_def Let_def merge_update_def
      split: option.splits completion.splits if_splits)

lemma audit_loop_keeps_report:
  "audit_loop L I n st = Returns (Inr res) \<Longrightarrow> report (snd res) = report st"
proof (induction n arbitrary: st res)
  case 0
  then show ?case by simp
next
  case (Suc n)
  from Suc.prems obtain upd where upd: "audit_node L I st = Returns upd"
    by (cases "audit_node L I st") simp_all
  show ?case
  proof (cases "should_continue_audit (merge_update st upd) = Audit")
    case True
    with Suc.prems upd obtain rest where
      rest: "audit_loop L I n (merge_update st upd) = Returns (Inr rest)" and
      res: "res = ((Audit, upd) # fst rest, snd rest)"
      by (auto split: completion.splits sum.splits)
    from Suc.IH [OF rest] have "report (snd rest) = report (merge_update st upd)" .
    with res upd show ?thesis by (simp add: audit_node_keeps_report)
  next
    case False
    with Suc.prems upd have "res = ([(Audit, upd)], merge_update st upd)" by simp
    with upd show ?thesis by (simp add: audit_node_keeps_report)
  qed
qed

text \<open>
  The graph ends within the limit when the limit leaves a step for every rule still to be
  checked and one more: the loop over the rules does not raise \<open>GraphRecursionError\<close> then.
\<close>

lemma audit_loop_within_limit:
  "length (retrieved_rules st) - current_rule_index st < n
   \<Longrightarrow> audit_loop L I n st \<noteq> Returns (Inl GraphRecursionError)"
proof (induction n arbitrary: st)
  case 0
  then show ?case by simp
next
  case (Suc n)
  show ?case
  proof (cases "audit_node L I st")
    case Escapes
    then show ?thesis by simp
  next
    case (Returns upd)
    show ?thesis
    proof (cases "should_continue_audit (merge_update st upd) = Audit")
      case False
      with Returns show ?thesis by simp
    next
      case True
      have "length (retrieved_rules (merge_update st upd))
          - current_rule_index (merge_update st upd) < n"
      proof (cases "current_rule_index st \<ge> length (retrieved_rules st)")
        case True
        with Returns have "upd = [K_should_continue False]"
          by (simp add: audit_node_def Let_def)
        with \<open>should_continue_audit (merge_update st upd) = Audit\<close> show ?thesis
          by (simp add: merge_update_def should_continue_audit_def split: if_splits)
      next
        case False
        with Returns Suc.prems show ?thesis
          by (auto simp: audit_node_def Let_def merge_update_def
              split: option.splits completion.splits if_splits)
      qed
      from Suc.IH [OF this] True Returns show ?thesis
        by (auto split: completion.splits sum.splits)
    qed
  qed
qed

lemma report_before_audit:
  "report (merge_update (merge_update (create_initial_state I)
             (parse_node I (create_initial_state I)))
           (retrieve_node I (merge_update (create_initial_state I)
             (parse_node I (create_initial_state I))))) = None"
  by (simp add: merge_update_def parse_node_def retrieve_node_def create_initial_state_def
      split: sum.splits)

lemma report_node_report:
  "report st = None \<Longrightarrow> report (merge_update st (report_node I st)) = report_in (report_node I st)"
  by (simp add: merge_update_def report_node_def split: option.splits)

text \<open>
  What the two modes have in common, for one and the same surroundings (library, parser,
  retrieval, reporter, clock readings, step limit): when the batch run returns a state, the
  streaming run returns the chunk of the node \<open>report\<close>, and the \<open>AuditReport\<close> under the key
  \<open>report\<close> of the update in that chunk is the one under the key \<open>report\<close> of the state.
\<close>

lemma report_inside_last_chunk:
  assumes "run L I False = Returns (Inr (FinalState st))"
  shows "\<exists>upd. run L I True = Returns (Inr (LastChunk (Some (Report, upd))))
           \<and> report_in upd = report st"
proof -
  let ?s2 = "merge_update (merge_update (create_initial_state I)
             (parse_node I (create_initial_state I)))
           (retrieve_node I (merge_update (create_initial_state I)
             (parse_node I (create_initial_state I))))"
  from assms obtain audited where
    a: "audit_loop L I (recursion_limit I - 2) ?s2 = Returns (Inr audited)" and
    l: "\<not> recursion_limit I < 2 + length (fst audited) + 1" and
    st: "st = merge_update (snd audited) (report_node I (snd audited))"
    by (auto simp: run_def execute_def Let_def split: completion.splits sum.splits if_splits)
  from audit_loop_keeps_report [OF a] report_before_audit
  have "report (snd audited) = None" by simp
  from report_node_report [OF this] st
  have "report_in (report_node I (snd audited)) = report st" by simp
  with a l show ?thesis by (simp add: run_def execute_def Let_def)
qed


end
